theory Spec2Isabelle
  imports Main
begin

section \<open>JavaScript values and objects\<close>

text \<open>
  The values that \<^verbatim>\<open>packages/mongo/collection/collection.js\<close> handles: the primitives
  \<^verbatim>\<open>undefined\<close>, \<^verbatim>\<open>null\<close>, booleans, numbers (integers or NaN), BigInts, strings and
  symbols, and the objects: ObjectIDs (wrapping a hexadecimal string), arrays, plain
  objects, and functions and built-in objects of the runtime, given by name.
\<close>

datatype jsval =
    Undefined
  | Null
  | JBool bool
  | JNum int
  | JNaN
  | JBigInt int
  | JStr string
  | JSymbol string
  | ObjectID string
  | JArray "jsval list"
  | JObject "(string \<times> jsval) list"
  | JBuiltin string

text \<open>
  A plain object is its list of own properties in the order of its keys; its prototype
  is \<^verbatim>\<open>Object.prototype\<close>. Reading goes through the first entry of a key, so a key
  counts once.
\<close>

type_synonym obj = "(string \<times> jsval) list"

text \<open>JavaScript truthiness, as tested by \<^verbatim>\<open>!x\<close> and \<^verbatim>\<open>x || y\<close>.\<close>

fun truthy :: "jsval \<Rightarrow> bool" where
  "truthy Undefined = False"
| "truthy Null = False"
| "truthy (JBool b) = b"
| "truthy (JNum n) = (n \<noteq> 0)"
| "truthy JNaN = False"
| "truthy (JBigInt n) = (n \<noteq> 0)"
| "truthy (JStr s) = (s \<noteq> [])"
| "truthy (JSymbol s) = True"
| "truthy (ObjectID h) = True"
| "truthy (JArray xs) = True"
| "truthy (JObject ps) = True"
| "truthy (JBuiltin n) = True"

text \<open>
  The value of an own property, \<^verbatim>\<open>undefined\<close> when the object has no such own
  property: what \<^verbatim>\<open>o[k]\<close> gives for a key \<open>k\<close> taken from the own keys of \<open>o\<close>.
\<close>

definition obj_get :: "obj \<Rightarrow> string \<Rightarrow> jsval" where
  "obj_get ob k = (case map_of ob k of None \<Rightarrow> Undefined | Some v \<Rightarrow> v)"

text \<open>\<^verbatim>\<open>Object.prototype.hasOwnProperty.call(o, k)\<close>: \<open>k\<close> is an own property.\<close>

definition has_key :: "obj \<Rightarrow> string \<Rightarrow> bool" where
  "has_key ob k = (map_of ob k \<noteq> None)"

text \<open>
  The members that every plain object inherits from \<^verbatim>\<open>Object.prototype\<close>: functions,
  and the accessor \<^verbatim>\<open>__proto__\<close>, whose getter gives the prototype itself.
\<close>

definition Object_prototype :: obj where
  "Object_prototype =
     [(''constructor'', JBuiltin ''Object''),
      (''__defineGetter__'', JBuiltin ''Object.prototype.__defineGetter__''),
      (''__defineSetter__'', JBuiltin ''Object.prototype.__defineSetter__''),
      (''hasOwnProperty'', JBuiltin ''Object.prototype.hasOwnProperty''),
      (''__lookupGetter__'', JBuiltin ''Object.prototype.__lookupGetter__''),
      (''__lookupSetter__'', JBuiltin ''Object.prototype.__lookupSetter__''),
      (''isPrototypeOf'', JBuiltin ''Object.prototype.isPrototypeOf''),
      (''propertyIsEnumerable'', JBuiltin ''Object.prototype.propertyIsEnumerable''),
      (''toString'', JBuiltin ''Object.prototype.toString''),
      (''valueOf'', JBuiltin ''Object.prototype.valueOf''),
      (''__proto__'', JBuiltin ''Object.prototype''),
      (''toLocaleString'', JBuiltin ''Object.prototype.toLocaleString'')]"

text \<open>
  \<^verbatim>\<open>o[k]\<close> for any key: the own property, else the member of \<^verbatim>\<open>Object.prototype\<close> of
  that name, else \<^verbatim>\<open>undefined\<close>.
\<close>

definition js_get :: "obj \<Rightarrow> string \<Rightarrow> jsval" where
  "js_get ob k = (case map_of ob k of None \<Rightarrow> obj_get Object_prototype k | Some v \<Rightarrow> v)"

text \<open>\<^verbatim>\<open>k in o\<close> for a plain object: an own or an inherited property.\<close>

definition js_in :: "string \<Rightarrow> obj \<Rightarrow> bool" where
  "js_in k ob = (has_key ob k \<or> has_key Object_prototype k)"

text \<open>\<^verbatim>\<open>Object.keys(o)\<close>.\<close>

definition Object_keys :: "obj \<Rightarrow> string list" where
  "Object_keys ob = map fst ob"

text \<open>
  Defining the own property \<open>k\<close> with value \<open>v\<close>, as an object literal and a spread do:
  an existing property keeps its place, a new one goes last.
\<close>

fun obj_set :: "obj \<Rightarrow> string \<Rightarrow> jsval \<Rightarrow> obj" where
  "obj_set [] k v = [(k, v)]"
| "obj_set (p # ps) k v = (if fst p = k then (k, v) # ps else p # obj_set ps k v)"

text \<open>
  The assignment \<^verbatim>\<open>o[k] = v\<close> on a plain object. It defines the own property, except
  for the key \<^verbatim>\<open>__proto__\<close> on an object without such an own property: there the setter
  inherited from \<^verbatim>\<open>Object.prototype\<close> runs, which may change the prototype of \<open>o\<close> and
  gives it no own property.
\<close>

definition js_set :: "obj \<Rightarrow> string \<Rightarrow> jsval \<Rightarrow> obj" where
  "js_set ob k v = (if k = ''__proto__'' \<and> \<not> has_key ob k then ob else obj_set ob k v)"

text \<open>\<^verbatim>\<open>delete o[k]\<close>.\<close>

definition obj_delete :: "obj \<Rightarrow> string \<Rightarrow> obj" where
  "obj_delete ob k = filter (\<lambda>p. fst p \<noteq> k) ob"

text \<open>
  \<^verbatim>\<open>{ ...base, ...src }\<close>: each own property of \<open>src\<close> is read and defined over \<open>base\<close>,
  in the order of its keys.
\<close>

definition obj_spread :: "obj \<Rightarrow> obj \<Rightarrow> obj" where
  "obj_spread base src = fold (\<lambda>k acc. obj_set acc k (obj_get src k)) (Object_keys src) base"

section \<open>Change messages and the calls a store makes on its collection\<close>

text \<open>
  A change message \<^verbatim>\<open>{ msg, id, fields, replace }\<close>. The kind \<open>msg_msg\<close> is the string the
  code compares. \<open>msg_fields\<close> is the field object, \<open>None\<close> when the message has no
  \<^verbatim>\<open>fields\<close>; in it a field mapped to \<open>Undefined\<close> is a field to clear. \<open>msg_replace\<close> is
  the replacement document of a \<^verbatim>\<open>replace\<close> message, \<open>None\<close> for \<^verbatim>\<open>undefined\<close>.
\<close>

record message =
  msg_msg :: string
  msg_id :: string
  msg_fields :: "obj option"
  msg_replace :: "obj option"

text \<open>
  What is thrown: \<^verbatim>\<open>throw new Error(message)\<close> of the code, or a \<^verbatim>\<open>TypeError\<close> of the
  runtime (its message depends on the engine).
\<close>

datatype error = Error string | TypeError

text \<open>
  The own properties that \<^verbatim>\<open>...msg.fields\<close> copies and that \<^verbatim>\<open>for (field in msg.fields)\<close>
  visits: none when \<^verbatim>\<open>msg.fields\<close> is \<^verbatim>\<open>undefined\<close>.
\<close>

definition own_fields :: "obj option \<Rightarrow> obj" where
  "own_fields fo = (case fo of None \<Rightarrow> [] | Some flds \<Rightarrow> flds)"

text \<open>
  The modifier object built for a \<^verbatim>\<open>changed\<close> message: its \<^verbatim>\<open>$unset\<close> and \<^verbatim>\<open>$set\<close>
  properties, each \<open>None\<close> until the code creates it.
\<close>

record modifier =
  dollar_unset :: "obj option"
  dollar_set :: "obj option"

text \<open>
  The second argument of \<^verbatim>\<open>update(mongoId, ...)\<close>: the modifier of a \<^verbatim>\<open>changed\<close> message
  or the replacement document of a \<^verbatim>\<open>replace\<close> message.
\<close>

datatype update_arg = Modifier modifier | Replacement obj

text \<open>The argument of \<^verbatim>\<open>remove\<close>: an identifier, or the selector \<^verbatim>\<open>{}\<close>.\<close>

datatype remove_arg = ById jsval | Everything

text \<open>
  The calls the stores make on \<^verbatim>\<open>self._collection\<close>. The client store calls the
  synchronous methods, the server store the \<^verbatim>\<open>Async\<close> ones.
\<close>

datatype call =
    pauseObservers
  | resumeObserversClient
  | resumeObserversServer
  | insert_call obj
  | remove_call remove_arg
  | update_call jsval update_arg
  | insertAsync obj
  | removeAsync remove_arg
  | updateAsync jsval update_arg

section \<open>The stores\<close>

text \<open>
  The \<^verbatim>\<open>$unset\<close> and \<^verbatim>\<open>$set\<close> objects of a modifier, \<^verbatim>\<open>{}\<close> where the modifier has
  none yet.
\<close>

definition unset_entries :: "modifier \<Rightarrow> obj" where
  "unset_entries modifier = (case dollar_unset modifier of None \<Rightarrow> [] | Some u \<Rightarrow> u)"

definition set_entries :: "modifier \<Rightarrow> obj" where
  "set_entries modifier = (case dollar_set modifier of None \<Rightarrow> [] | Some s \<Rightarrow> s)"

text \<open>
  The body of \<^verbatim>\<open>keys.forEach(key => ...)\<close> in the \<^verbatim>\<open>changed\<close> branch, the same in both
  stores. \<open>equals\<close> stands for \<^verbatim>\<open>EJSON.equals\<close> (package ejson), \<open>doc\<close> is the current
  document and \<open>flds\<close> is \<^verbatim>\<open>msg.fields\<close>. The key is an own key of \<open>flds\<close>; \<^verbatim>\<open>doc[key]\<close>
  is read through the prototype of the document, and the entry is made by assignment.
\<close>

definition modifier_step ::
  "(jsval \<Rightarrow> jsval \<Rightarrow> bool) \<Rightarrow> obj \<Rightarrow> obj \<Rightarrow> string \<Rightarrow> modifier \<Rightarrow> modifier" where
  "modifier_step equals doc flds key modifier =
     (let val = obj_get flds key in
      if equals (js_get doc key) val then modifier
      else if val = Undefined then
        modifier\<lparr>dollar_unset := Some (js_set (unset_entries modifier) key (JNum 1))\<rparr>
      else
        modifier\<lparr>dollar_set := Some (js_set (set_entries modifier) key val)\<rparr>)"

text \<open>\<^verbatim>\<open>var modifier = {}; keys.forEach(...)\<close>.\<close>

definition changed_modifier ::
  "(jsval \<Rightarrow> jsval \<Rightarrow> bool) \<Rightarrow> obj \<Rightarrow> obj \<Rightarrow> string list \<Rightarrow> modifier" where
  "changed_modifier equals doc flds keys =
     fold (modifier_step equals doc flds) keys \<lparr>dollar_unset = None, dollar_set = None\<rparr>"

text \<open>\<^verbatim>\<open>Object.keys(modifier).length > 0\<close>.\<close>

definition modifier_nonempty :: "modifier \<Rightarrow> bool" where
  "modifier_nonempty modifier =
     (\<not> (dollar_unset modifier = None \<and> dollar_set modifier = None))"

text \<open>
  \<^verbatim>\<open>wrappedStoreServer.update(msg)\<close>. \<open>idParse\<close> stands for \<^verbatim>\<open>MongoID.idParse\<close> (package
  mongo-id) and \<open>table\<close> for \<^verbatim>\<open>self._collection._docs\<close>, read once before any call. The
  result is the error thrown, or the calls made on the collection in order.
  \<^verbatim>\<open>Object.keys(msg.fields)\<close> raises a TypeError when the message has no \<^verbatim>\<open>fields\<close>.
\<close>

definition wrappedStoreServer_update ::
  "(string \<Rightarrow> jsval) \<Rightarrow> (jsval \<Rightarrow> jsval \<Rightarrow> bool) \<Rightarrow> (jsval \<rightharpoonup> obj) \<Rightarrow> message
     \<Rightarrow> error + call list" where
  "wrappedStoreServer_update idParse equals table m =
     (let mongoId = idParse (msg_id m); doc = table mongoId in
      if msg_msg m = ''replace'' then
        (case msg_replace m of
           None \<Rightarrow> (if doc \<noteq> None then Inr [removeAsync (ById mongoId)] else Inr [])
         | Some rep \<Rightarrow>
             (if doc = None then Inr [insertAsync rep]
              else Inr [updateAsync mongoId (Replacement rep)]))
      else if msg_msg m = ''added'' then
        (if doc \<noteq> None then
           Inl (Error ''Expected not to find a document already present for an add'')
         else Inr [insertAsync (obj_spread [(''_id'', mongoId)] (own_fields (msg_fields m)))])
      else if msg_msg m = ''removed'' then
        (if doc = None then
           Inl (Error ''Expected to find a document already present for removed'')
         else Inr [removeAsync (ById mongoId)])
      else if msg_msg m = ''changed'' then
        (case doc of
           None \<Rightarrow> Inl (Error ''Expected to find a document to change'')
         | Some d \<Rightarrow>
             (case msg_fields m of
                None \<Rightarrow> Inl TypeError
              | Some flds \<Rightarrow>
                  (let keys = Object_keys flds in
                   if length keys > 0 then
                     (let modifier = changed_modifier equals d flds keys in
                      if modifier_nonempty modifier
                      then Inr [updateAsync mongoId (Modifier modifier)]
                      else Inr [])
                   else Inr [])))
      else Inl (Error ''I don't know how to deal with this message''))"

text \<open>
  The soft-merge prelude of \<^verbatim>\<open>wrappedStoreClient.update\<close>, run when \<^verbatim>\<open>Meteor.isClient\<close>
  holds. The loop \<^verbatim>\<open>for (let field in _ref)\<close> deletes every field whose value is
  \<^verbatim>\<open>undefined\<close> from \<^verbatim>\<open>msg.fields\<close>; it has nothing to visit when the message has no
  \<^verbatim>\<open>fields\<close>.
\<close>

definition delete_undefined_fields :: "obj \<Rightarrow> obj" where
  "delete_undefined_fields flds =
     fold (\<lambda>field acc. if obj_get acc field = Undefined then obj_delete acc field else acc)
       (Object_keys flds) flds"

text \<open>The message after the prelude; \<open>None\<close> is the early \<^verbatim>\<open>return\<close>.\<close>

definition soft_merge :: "bool \<Rightarrow> obj option \<Rightarrow> message \<Rightarrow> message option" where
  "soft_merge isClient doc m =
     (if isClient then
        (if msg_msg m = ''added'' \<and> doc \<noteq> None then Some (m\<lparr>msg_msg := ''changed''\<rparr>)
         else if msg_msg m = ''removed'' \<and> doc = None then None
         else if msg_msg m = ''changed'' \<and> doc = None then
           Some (m\<lparr>msg_msg := ''added'',
                   msg_fields := map_option delete_undefined_fields (msg_fields m)\<rparr>)
         else Some m)
      else Some m)"

text \<open>
  \<^verbatim>\<open>wrappedStoreClient.update(msg)\<close>: the prelude, then the same chain as the server store
  with the synchronous calls.
\<close>

definition wrappedStoreClient_update ::
  "bool \<Rightarrow> (string \<Rightarrow> jsval) \<Rightarrow> (jsval \<Rightarrow> jsval \<Rightarrow> bool) \<Rightarrow> (jsval \<rightharpoonup> obj) \<Rightarrow> message
     \<Rightarrow> error + call list" where
  "wrappedStoreClient_update isClient idParse equals table m0 =
     (let mongoId = idParse (msg_id m0); doc = table mongoId in
      case soft_merge isClient doc m0 of
        None \<Rightarrow> Inr []
      | Some m \<Rightarrow>
          if msg_msg m = ''replace'' then
            (case msg_replace m of
               None \<Rightarrow> (if doc \<noteq> None then Inr [remove_call (ById mongoId)] else Inr [])
             | Some rep \<Rightarrow>
                 (if doc = None then Inr [insert_call rep]
                  else Inr [update_call mongoId (Replacement rep)]))
          else if msg_msg m = ''added'' then
            (if doc \<noteq> None then
               Inl (Error ''Expected not to find a document already present for an add'')
             else Inr [insert_call
                         (obj_spread [(''_id'', mongoId)] (own_fields (msg_fields m)))])
          else if msg_msg m = ''removed'' then
            (if doc = None then
               Inl (Error ''Expected to find a document already present for removed'')
             else Inr [remove_call (ById mongoId)])
          else if msg_msg m = ''changed'' then
            (case doc of
               None \<Rightarrow> Inl (Error ''Expected to find a document to change'')
             | Some d \<Rightarrow>
                 (case msg_fields m of
                    None \<Rightarrow> Inl TypeError
                  | Some flds \<Rightarrow>
                      (let keys = Object_keys flds in
                       if length keys > 0 then
                         (let modifier = changed_modifier equals d flds keys in
                          if modifier_nonempty modifier
                          then Inr [update_call mongoId (Modifier modifier)]
                          else Inr [])
                       else Inr [])))
          else Inl (Error ''I don't know how to deal with this message''))"

text \<open>
  \<^verbatim>\<open>beginUpdate(batchSize, reset)\<close> and \<^verbatim>\<open>endUpdate()\<close> of both stores: the calls made on
  the collection, in order. \<open>reset\<close> is the truthiness of the argument.
\<close>

definition wrappedStoreClient_beginUpdate :: "int \<Rightarrow> bool \<Rightarrow> call list" where
  "wrappedStoreClient_beginUpdate batchSize reset =
     (if batchSize > 1 \<or> reset then [pauseObservers] else [])
     @ (if reset then [remove_call Everything] else [])"

definition wrappedStoreServer_beginUpdate :: "int \<Rightarrow> bool \<Rightarrow> call list" where
  "wrappedStoreServer_beginUpdate batchSize reset =
     (if batchSize > 1 \<or> reset then [pauseObservers] else [])
     @ (if reset then [removeAsync Everything] else [])"

definition wrappedStoreClient_endUpdate :: "call list" where
  "wrappedStoreClient_endUpdate = [resumeObserversClient]"

definition wrappedStoreServer_endUpdate :: "call list" where
  "wrappedStoreServer_endUpdate = [resumeObserversServer]"

section \<open>The document table\<close>

text \<open>Modelled from the spec: the collection behind \<^verbatim>\<open>self._collection\<close> (the Document Table,
  \<^verbatim>\<open>LocalCollection\<close> of package minimongo, not among the sources). It is a keyed mapping
  from document identifier to document, with a flag for paused observer notifications.
\<close>

record collection =
  docs :: "jsval \<rightharpoonup> obj"
  paused :: bool

text \<open>Modelled from the spec: ``identifier is immutable once assigned''. An update leaves the
  \<^verbatim>\<open>_id\<close> property of the stored document as it was.
\<close>

definition keep_id :: "obj \<Rightarrow> obj \<Rightarrow> obj" where
  "keep_id old new =
     (case map_of old ''_id'' of
        None \<Rightarrow> obj_delete new ''_id''
      | Some i \<Rightarrow> obj_set new ''_id'' i)"

text \<open>Modelled from the spec: the primitive operations field-unset and field-set of a delta,
  applied to a document.
\<close>

definition apply_modifier :: "modifier \<Rightarrow> obj \<Rightarrow> obj" where
  "apply_modifier modifier d =
     obj_spread
       (fold (\<lambda>k acc. obj_delete acc k) (Object_keys (unset_entries modifier)) d)
       (set_entries modifier)"

text \<open>Modelled from the spec: \<^verbatim>\<open>update(id, delta)\<close> on the stored document, a field-level
  delta or a full-document update to the replacement (never a partial merge).
\<close>

fun table_update :: "update_arg \<Rightarrow> obj \<Rightarrow> obj" where
  "table_update (Modifier modifier) d = keep_id d (apply_modifier modifier d)"
| "table_update (Replacement rep) d = keep_id d rep"

text \<open>Modelled from the spec: the operations required of the Document Table, \<^verbatim>\<open>insert(doc)\<close>,
  \<^verbatim>\<open>remove(id | {})\<close>, \<^verbatim>\<open>update(id, delta)\<close>, \<^verbatim>\<open>pauseObservers()\<close> and
  \<^verbatim>\<open>resumeObservers()\<close>. A document is stored under its \<^verbatim>\<open>_id\<close>; the \<^verbatim>\<open>Async\<close> methods
  have the effect of the synchronous ones.
\<close>

fun run_call :: "call \<Rightarrow> collection \<Rightarrow> collection" where
  "run_call pauseObservers c = c\<lparr>paused := True\<rparr>"
| "run_call resumeObserversClient c = c\<lparr>paused := False\<rparr>"
| "run_call resumeObserversServer c = c\<lparr>paused := False\<rparr>"
| "run_call (insert_call d) c = c\<lparr>docs := (docs c)(obj_get d ''_id'' \<mapsto> d)\<rparr>"
| "run_call (remove_call (ById i)) c = c\<lparr>docs := (docs c)(i := None)\<rparr>"
| "run_call (remove_call Everything) c = c\<lparr>docs := Map.empty\<rparr>"
| "run_call (update_call i arg) c =
     (case docs c i of
        None \<Rightarrow> c
      | Some d \<Rightarrow> c\<lparr>docs := (docs c)(i \<mapsto> table_update arg d)\<rparr>)"
| "run_call (insertAsync d) c = c\<lparr>docs := (docs c)(obj_get d ''_id'' \<mapsto> d)\<rparr>"
| "run_call (removeAsync (ById i)) c = c\<lparr>docs := (docs c)(i := None)\<rparr>"
| "run_call (removeAsync Everything) c = c\<lparr>docs := Map.empty\<rparr>"
| "run_call (updateAsync i arg) c =
     (case docs c i of
        None \<Rightarrow> c
      | Some d \<Rightarrow> c\<lparr>docs := (docs c)(i \<mapsto> table_update arg d)\<rparr>)"

text \<open>The calls of one store method, made on the collection in order.\<close>

definition run_calls :: "call list \<Rightarrow> collection \<Rightarrow> collection" where
  "run_calls cs c = fold run_call cs c"

text \<open>
  One \<^verbatim>\<open>update(msg)\<close> of a store on a collection: the store reads the table of the
  collection, and its calls are then run on it; an error thrown leaves the collection
  untouched.
\<close>

definition client_apply ::
  "bool \<Rightarrow> (string \<Rightarrow> jsval) \<Rightarrow> (jsval \<Rightarrow> jsval \<Rightarrow> bool) \<Rightarrow> collection \<Rightarrow> message
     \<Rightarrow> error + collection" where
  "client_apply isClient idParse equals c m =
     (case wrappedStoreClient_update isClient idParse equals (docs c) m of
        Inl e \<Rightarrow> Inl e
      | Inr cs \<Rightarrow> Inr (run_calls cs c))"

definition server_apply ::
  "(string \<Rightarrow> jsval) \<Rightarrow> (jsval \<Rightarrow> jsval \<Rightarrow> bool) \<Rightarrow> collection \<Rightarrow> message
     \<Rightarrow> error + collection" where
  "server_apply idParse equals c m =
     (case wrappedStoreServer_update idParse equals (docs c) m of
        Inl e \<Rightarrow> Inl e
      | Inr cs \<Rightarrow> Inr (run_calls cs c))"

section \<open>The selector guard\<close>

text \<open>Modelled from the spec: \<^verbatim>\<open>LocalCollection._selectorIsId\<close> (package minimongo, not among
  the sources), the test for the scalar shorthand: a number, a string or an ObjectID.
\<close>

fun selectorIsId :: "jsval \<Rightarrow> bool" where
  "selectorIsId (JNum n) = True"
| "selectorIsId JNaN = True"
| "selectorIsId (JStr s) = True"
| "selectorIsId (ObjectID h) = True"
| "selectorIsId Undefined = False"
| "selectorIsId Null = False"
| "selectorIsId (JBool b) = False"
| "selectorIsId (JBigInt n) = False"
| "selectorIsId (JSymbol s) = False"
| "selectorIsId (JArray xs) = False"
| "selectorIsId (JObject ps) = False"
| "selectorIsId (JBuiltin n) = False"

text \<open>\<^verbatim>\<open>Array.isArray\<close>.\<close>

fun isArray :: "jsval \<Rightarrow> bool" where
  "isArray (JArray xs) = True"
| "isArray Undefined = False"
| "isArray Null = False"
| "isArray (JBool b) = False"
| "isArray (JNum n) = False"
| "isArray JNaN = False"
| "isArray (JBigInt n) = False"
| "isArray (JStr s) = False"
| "isArray (JSymbol s) = False"
| "isArray (ObjectID h) = False"
| "isArray (JObject ps) = False"
| "isArray (JBuiltin n) = False"

text \<open>
  \<^verbatim>\<open>'_id' in selector && !selector._id\<close>. The operator \<^verbatim>\<open>in\<close> takes an object on its
  right and raises a TypeError on a primitive value; an array, an ObjectID, a function
  or a built-in object has no property \<^verbatim>\<open>_id\<close>.
\<close>

fun falsy_id :: "jsval \<Rightarrow> error + bool" where
  "falsy_id (JObject ps) = Inr (js_in ''_id'' ps \<and> \<not> truthy (js_get ps ''_id''))"
| "falsy_id (JArray xs) = Inr False"
| "falsy_id (ObjectID h) = Inr False"
| "falsy_id (JBuiltin n) = Inr False"
| "falsy_id Undefined = Inl TypeError"
| "falsy_id Null = Inl TypeError"
| "falsy_id (JBool b) = Inl TypeError"
| "falsy_id (JNum n) = Inl TypeError"
| "falsy_id JNaN = Inl TypeError"
| "falsy_id (JBigInt n) = Inl TypeError"
| "falsy_id (JStr s) = Inl TypeError"
| "falsy_id (JSymbol s) = Inl TypeError"

text \<open>
  The parameter pattern \<^verbatim>\<open>{ fallbackId } = {}\<close> on the second argument: an argument
  that is \<^verbatim>\<open>undefined\<close> (or not passed) takes the default \<^verbatim>\<open>{}\<close>, \<^verbatim>\<open>null\<close> cannot be
  destructured and raises a TypeError, and any other value gives its property
  \<^verbatim>\<open>fallbackId\<close>, which only a plain object is taken to have.
\<close>

fun fallbackId_of :: "jsval \<Rightarrow> error + jsval" where
  "fallbackId_of Undefined = Inr Undefined"
| "fallbackId_of Null = Inl TypeError"
| "fallbackId_of (JObject ps) = Inr (js_get ps ''fallbackId'')"
| "fallbackId_of (JBool b) = Inr Undefined"
| "fallbackId_of (JNum n) = Inr Undefined"
| "fallbackId_of JNaN = Inr Undefined"
| "fallbackId_of (JBigInt n) = Inr Undefined"
| "fallbackId_of (JStr s) = Inr Undefined"
| "fallbackId_of (JSymbol s) = Inr Undefined"
| "fallbackId_of (ObjectID h) = Inr Undefined"
| "fallbackId_of (JArray xs) = Inr Undefined"
| "fallbackId_of (JBuiltin n) = Inr Undefined"

text \<open>
  \<^verbatim>\<open>Mongo.Collection._rewriteSelector(selector, { fallbackId } = {})\<close>. \<open>randomId\<close> is the
  value that \<^verbatim>\<open>Random.id()\<close> returns when it is called; \<open>options\<close> is the second
  argument, \<open>Undefined\<close> when it is not passed. The parameters are bound before the body
  runs.
\<close>

definition rewriteSelector :: "jsval \<Rightarrow> jsval \<Rightarrow> jsval \<Rightarrow> error + jsval" where
  "rewriteSelector randomId selector0 options =
     (case fallbackId_of options of
        Inl e \<Rightarrow> Inl e
      | Inr fallbackId \<Rightarrow>
          (let selector = (if selectorIsId selector0 then JObject [(''_id'', selector0)]
                           else selector0) in
           if isArray selector then Inl (Error ''Mongo selector can't be an array.'')
           else if \<not> truthy selector then
             Inr (JObject [(''_id'', if truthy fallbackId then fallbackId else randomId)])
           else
             (case falsy_id selector of
                Inl e \<Rightarrow> Inl e
              | Inr b \<Rightarrow>
                  if b
                  then Inr (JObject [(''_id'', if truthy fallbackId then fallbackId
                                               else randomId)])
                  else Inr selector)))"

section \<open>The snapshot publisher\<close>

text \<open>
  What the publisher and its callbacks do: calls on the subscription \<^verbatim>\<open>sub\<close> and on the
  observe handle. A callback registered with \<^verbatim>\<open>sub.onStop\<close> is given by what it does when
  it is invoked.
\<close>

datatype 'h effect =
    sub_added string jsval obj
  | sub_changed string jsval obj
  | sub_removed string jsval
  | sub_ready
  | sub_onStop "'h effect list"
  | handle_stop 'h

text \<open>The two arguments of \<^verbatim>\<open>cursor.observeChanges\<close>.\<close>

record 'h observe_callbacks =
  added :: "jsval \<Rightarrow> obj \<Rightarrow> 'h effect list"
  changed :: "jsval \<Rightarrow> obj \<Rightarrow> 'h effect list"
  removed :: "jsval \<Rightarrow> 'h effect list"

record observe_options =
  nonMutatingCallbacks :: bool

text \<open>
  \<^verbatim>\<open>Mongo.Collection._publishCursor(cursor, sub, collection)\<close>. \<open>observeChanges\<close> is the
  method of the cursor: it fails, or it returns the observe handle. The result is the
  calls made on \<^verbatim>\<open>sub\<close> by the publisher itself, and the handle it returns.
\<close>

definition publishCursor ::
  "('h observe_callbacks \<Rightarrow> observe_options \<Rightarrow> error + 'h) \<Rightarrow> string
     \<Rightarrow> error + ('h effect list \<times> 'h)" where
  "publishCursor observeChanges collection =
     (case observeChanges
             \<lparr>added = (\<lambda>i flds. [sub_added collection i flds]),
              changed = (\<lambda>i flds. [sub_changed collection i flds]),
              removed = (\<lambda>i. [sub_removed collection i])\<rparr>
             \<lparr>nonMutatingCallbacks = True\<rparr> of
        Inl e \<Rightarrow> Inl e
      | Inr observeHandle \<Rightarrow> Inr ([sub_onStop [handle_stop observeHandle]], observeHandle))"

text \<open>Modelled from the spec: the live query behind the cursor (not among the sources). It
  reports each result by invoking the callback of its kind.
\<close>

datatype observe_event = ev_added jsval obj | ev_changed jsval obj | ev_removed jsval

fun dispatch :: "'h observe_callbacks \<Rightarrow> observe_event \<Rightarrow> 'h effect list" where
  "dispatch cb (ev_added i flds) = added cb i flds"
| "dispatch cb (ev_changed i flds) = changed cb i flds"
| "dispatch cb (ev_removed i) = removed cb i"

text \<open>
  Follows the spec's words: the message of the three-message vocabulary that a result is
  forwarded as, \<^verbatim>\<open>added(collectionName, id, fields)\<close>, \<^verbatim>\<open>changed(collectionName, id, fields)\<close>
  or \<^verbatim>\<open>removed(collectionName, id)\<close>.
\<close>

fun forwarded :: "string \<Rightarrow> observe_event \<Rightarrow> 'h effect" where
  "forwarded collection (ev_added i flds) = sub_added collection i flds"
| "forwarded collection (ev_changed i flds) = sub_changed collection i flds"
| "forwarded collection (ev_removed i) = sub_removed collection i"

section \<open>Store registration\<close>

text \<open>
  What \<^verbatim>\<open>registerStoreClient\<close> or \<^verbatim>\<open>registerStoreServer\<close> returns: a falsy value, a truthy
  value that is no promise, or a promise that rejects or resolves to \<^verbatim>\<open>ok\<close> (given by
  its truthiness).
\<close>

datatype register_result = Falsy | Truthy | Thenable "error + bool"

datatype store = wrappedStoreClient | wrappedStoreServer

record connection =
  registerStoreClient :: "(string \<Rightarrow> store \<Rightarrow> register_result) option"
  registerStoreServer :: "(string \<Rightarrow> store \<Rightarrow> register_result) option"

datatype console_call = console_warn string | console_log string

text \<open>
  \<^verbatim>\<open>console.warn ? console.warn(message) : console.log(message)\<close>; \<open>has_warn\<close> tells
  whether \<^verbatim>\<open>console.warn\<close> exists.
\<close>

definition logWarn :: "bool \<Rightarrow> string \<Rightarrow> console_call list" where
  "logWarn has_warn message =
     (if has_warn then [console_warn message] else [console_log message])"

text \<open>
  \<^verbatim>\<open>_maybeSetUpReplication(name)\<close>, from the registration on: the error the returned
  promise rejects with, or the console calls made.
\<close>

definition maybeSetUpReplication ::
  "bool \<Rightarrow> bool \<Rightarrow> connection option \<Rightarrow> string \<Rightarrow> error + console_call list" where
  "maybeSetUpReplication isClient has_warn conn name =
     (case conn of
        None \<Rightarrow> Inr []
      | Some c \<Rightarrow>
          (case registerStoreClient c of
             None \<Rightarrow> Inr []
           | Some regClient \<Rightarrow>
               (case registerStoreServer c of
                  None \<Rightarrow> Inr []
                | Some regServer \<Rightarrow>
                    (let registerStoreResult =
                           (if isClient then regClient name wrappedStoreClient
                            else regServer name wrappedStoreServer);
                         message = ''There is already a collection named '' @ [CHR 0x22]
                                     @ name @ [CHR 0x22] in
                     case registerStoreResult of
                       Falsy \<Rightarrow> Inr (logWarn has_warn message)
                     | Truthy \<Rightarrow> Inr []
                     | Thenable (Inl e) \<Rightarrow> Inl e
                     | Thenable (Inr ok) \<Rightarrow>
                         Inr (if \<not> ok then logWarn has_warn message else [])))))"

section \<open>Objects as finite maps\<close>

lemma map_of_obj_set: "map_of (obj_set ob k v) = (map_of ob)(k \<mapsto> v)"
  by (induction ob) (auto simp: fun_eq_iff)

lemma map_of_obj_delete: "map_of (obj_delete ob k) = (map_of ob)(k := None)"
  by (induction ob) (auto simp: obj_delete_def fun_eq_iff)

lemma has_key_iff: "has_key ob k = (k \<in> set (Object_keys ob))"
  by (simp add: has_key_def Object_keys_def map_of_eq_None_iff)

lemma map_of_fold_obj_set:
  "map_of (fold (\<lambda>k acc. obj_set acc k (f k)) ks base) k =
     (if k \<in> set ks then Some (f k) else map_of base k)"
  by (induction ks arbitrary: base) (auto simp: map_of_obj_set)

lemma map_of_obj_spread:
  "map_of (obj_spread base src) k =
     (if has_key src k then Some (obj_get src k) else map_of base k)"
  by (simp add: obj_spread_def map_of_fold_obj_set has_key_iff)

lemma obj_get_no_key: "\<not> has_key ob k \<Longrightarrow> obj_get ob k = Undefined"
  by (simp add: has_key_def obj_get_def)

lemma has_key_nil: "has_key [] k = False"
  by (simp add: has_key_def)

lemma has_key_obj_set: "has_key (obj_set ob k v) k' = (k' = k \<or> has_key ob k')"
  by (simp add: has_key_def map_of_obj_set)


lemma has_key_js_set:
  "has_key (js_set ob k v) k' = (has_key ob k' \<or> (k' = k \<and> k \<noteq> ''__proto__''))"
  by (auto simp: js_set_def has_key_obj_set)



lemma no_inherited_id: "has_key Object_prototype ''_id'' = False"
  by (simp add: has_key_def Object_prototype_def)

lemma js_in_id: "js_in ''_id'' ps = has_key ps ''_id''"
  by (simp add: js_in_def no_inherited_id)

lemma js_get_id: "js_get ps ''_id'' = obj_get ps ''_id''"
  by (simp add: js_get_def obj_get_def Object_prototype_def split: option.splits)

lemma map_of_keep_id:
  "map_of (keep_id old new) k = (if k = ''_id'' then map_of old ''_id'' else map_of new k)"
  by (auto simp: keep_id_def map_of_obj_set map_of_obj_delete split: option.splits)

section \<open>Clearing undefined fields\<close>

lemma obj_get_fold_delete_undefined:
  "obj_get (fold (\<lambda>field acc. if obj_get acc field = Undefined then obj_delete acc field
                               else acc) ks acc) k
     = obj_get acc k"
  by (induction ks arbitrary: acc) (auto simp: obj_get_def map_of_obj_delete split: option.splits)

lemma map_of_fold_delete_undefined:
  "map_of (fold (\<lambda>field acc. if obj_get acc field = Undefined then obj_delete acc field
                              else acc) ks acc) k
     = (if k \<in> set ks \<and> obj_get acc k = Undefined then None else map_of acc k)"
proof (induction ks arbitrary: acc)
  case Nil
  then show ?case by simp
next
  case (Cons f ks)
  let ?acc' = "if obj_get acc f = Undefined then obj_delete acc f else acc"
  have g: "obj_get ?acc' k = obj_get acc k"
    by (auto simp: obj_get_def map_of_obj_delete split: option.splits)
  show ?case using Cons [of ?acc'] g
    by (auto simp: map_of_obj_delete)
qed

lemma map_of_delete_undefined_fields:
  "map_of (delete_undefined_fields flds) k =
     (if obj_get flds k = Undefined then None else map_of flds k)"
proof -
  have "map_of (delete_undefined_fields flds) k =
      (if k \<in> set (Object_keys flds) \<and> obj_get flds k = Undefined then None
       else map_of flds k)"
    by (simp add: delete_undefined_fields_def map_of_fold_delete_undefined)
  moreover have "k \<notin> set (Object_keys flds) \<Longrightarrow> map_of flds k = None"
    using has_key_iff [of flds k] by (simp add: has_key_def)
  ultimately show ?thesis by auto
qed

lemma has_key_delete_undefined_fields:
  "has_key (delete_undefined_fields flds) k = (has_key flds k \<and> obj_get flds k \<noteq> Undefined)"
  by (auto simp: has_key_def map_of_delete_undefined_fields obj_get_def split: option.splits)

lemma obj_get_delete_undefined_fields:
  "obj_get (delete_undefined_fields flds) k = obj_get flds k"
  by (simp add: delete_undefined_fields_def obj_get_fold_delete_undefined)

lemma has_key_cleared_fields:
  "has_key (own_fields (map_option delete_undefined_fields fo)) k =
     (has_key (own_fields fo) k \<and> obj_get (own_fields fo) k \<noteq> Undefined)"
  by (cases fo) (simp_all add: own_fields_def has_key_nil has_key_delete_undefined_fields)

lemma obj_get_cleared_fields:
  "obj_get (own_fields (map_option delete_undefined_fields fo)) k = obj_get (own_fields fo) k"
  by (cases fo) (simp_all add: own_fields_def obj_get_delete_undefined_fields)

section \<open>The modifier of a changed message\<close>

lemma entries_empty:
  "unset_entries \<lparr>dollar_unset = None, dollar_set = None\<rparr> = []"
  "set_entries \<lparr>dollar_unset = None, dollar_set = None\<rparr> = []"
  by (simp_all add: unset_entries_def set_entries_def)

lemma unset_entries_step:
  "unset_entries (modifier_step equals d flds key M) =
     (if \<not> equals (js_get d key) (obj_get flds key) \<and> obj_get flds key = Undefined
      then js_set (unset_entries M) key (JNum 1) else unset_entries M)"
  by (auto simp: modifier_step_def Let_def unset_entries_def)

lemma set_entries_step:
  "set_entries (modifier_step equals d flds key M) =
     (if \<not> equals (js_get d key) (obj_get flds key) \<and> obj_get flds key \<noteq> Undefined
      then js_set (set_entries M) key (obj_get flds key) else set_entries M)"
  by (auto simp: modifier_step_def Let_def set_entries_def)



lemma has_key_unset_fold:
  "has_key (unset_entries (fold (modifier_step equals d flds) ks M)) k =
     (has_key (unset_entries M) k
      \<or> (k \<in> set ks \<and> k \<noteq> ''__proto__'' \<and> \<not> equals (js_get d k) (obj_get flds k)
          \<and> obj_get flds k = Undefined))"
  by (induction ks arbitrary: M) (auto simp: unset_entries_step has_key_js_set)

lemma has_key_set_fold:
  "has_key (set_entries (fold (modifier_step equals d flds) ks M)) k =
     (has_key (set_entries M) k
      \<or> (k \<in> set ks \<and> k \<noteq> ''__proto__'' \<and> \<not> equals (js_get d k) (obj_get flds k)
          \<and> obj_get flds k \<noteq> Undefined))"
  by (induction ks arbitrary: M) (auto simp: set_entries_step has_key_js_set)





lemma has_key_unset_changed:
  "has_key (unset_entries (changed_modifier equals d flds (Object_keys flds))) k =
     (has_key flds k \<and> k \<noteq> ''__proto__'' \<and> obj_get flds k = Undefined
      \<and> \<not> equals (js_get d k) (obj_get flds k))"
  by (auto simp: changed_modifier_def has_key_unset_fold has_key_iff [symmetric]
        entries_empty has_key_nil)

lemma has_key_set_changed:
  "has_key (set_entries (changed_modifier equals d flds (Object_keys flds))) k =
     (has_key flds k \<and> k \<noteq> ''__proto__'' \<and> obj_get flds k \<noteq> Undefined
      \<and> \<not> equals (js_get d k) (obj_get flds k))"
  by (auto simp: changed_modifier_def has_key_set_fold has_key_iff [symmetric]
        entries_empty has_key_nil)






lemma changed_result_server:
  assumes "msg_msg m = ''changed''" and "table (idParse (msg_id m)) = Some d"
    and "msg_fields m = Some flds"
  shows "wrappedStoreServer_update idParse equals table m =
     (if modifier_nonempty (changed_modifier equals d flds (Object_keys flds))
      then Inr [updateAsync (idParse (msg_id m))
                  (Modifier (changed_modifier equals d flds (Object_keys flds)))]
      else Inr [])"
  using assms
  by (auto simp: wrappedStoreServer_update_def Let_def modifier_nonempty_def changed_modifier_def)

lemma changed_result_client:
  assumes "msg_msg m = ''changed''" and "table (idParse (msg_id m)) = Some d"
    and "msg_fields m = Some flds"
  shows "wrappedStoreClient_update isClient idParse equals table m =
     (if modifier_nonempty (changed_modifier equals d flds (Object_keys flds))
      then Inr [update_call (idParse (msg_id m))
                  (Modifier (changed_modifier equals d flds (Object_keys flds)))]
      else Inr [])"
proof -
  have "soft_merge isClient (Some d) m = Some m"
    using assms by (simp add: soft_merge_def)
  then show ?thesis using assms
    by (auto simp: wrappedStoreClient_update_def Let_def modifier_nonempty_def
          changed_modifier_def)
qed

lemma changed_no_fields_server:
  assumes "msg_msg m = ''changed''" and "table (idParse (msg_id m)) = Some d"
    and "msg_fields m = None"
  shows "wrappedStoreServer_update idParse equals table m = Inl TypeError"
  using assms by (simp add: wrappedStoreServer_update_def)

lemma changed_no_fields_client:
  assumes "msg_msg m = ''changed''" and "table (idParse (msg_id m)) = Some d"
    and "msg_fields m = None"
  shows "wrappedStoreClient_update isClient idParse equals table m = Inl TypeError"
proof -
  have "soft_merge isClient (Some d) m = Some m"
    using assms by (simp add: soft_merge_def)
  then show ?thesis using assms
    by (simp add: wrappedStoreClient_update_def)
qed

section \<open>The effect of a modifier on a document\<close>

lemma map_of_fold_obj_delete:
  "map_of (fold (\<lambda>k acc. obj_delete acc k) ks d) k = (if k \<in> set ks then None else map_of d k)"
  by (induction ks arbitrary: d) (auto simp: map_of_obj_delete)

lemma map_of_apply_modifier:
  "map_of (apply_modifier M d) k =
     (if has_key (set_entries M) k then Some (obj_get (set_entries M) k)
      else if has_key (unset_entries M) k then None
      else map_of d k)"
  by (simp add: apply_modifier_def map_of_obj_spread map_of_fold_obj_delete has_key_iff)

lemma table_update_id: "map_of (table_update arg d) ''_id'' = map_of d ''_id''"
  by (cases arg) (simp_all add: map_of_keep_id)

lemma table_update_frame:
  "\<not> has_key (set_entries M) k \<Longrightarrow> \<not> has_key (unset_entries M) k \<Longrightarrow>
   map_of (table_update (Modifier M) d) k = map_of d k"
  by (simp add: map_of_keep_id map_of_apply_modifier)

lemma changed_frame:
  "\<not> has_key flds k \<Longrightarrow>
   map_of (table_update (Modifier (changed_modifier equals d flds (Object_keys flds))) d') k
     = map_of d' k"
  by (rule table_update_frame) (simp_all add: has_key_set_changed has_key_unset_changed)



section \<open>Errors of the server store\<close>

text \<open>
  C1, as amended. In strict mode (the server store) applying one change message throws
  one of the store's own errors if and only if the message is \<^verbatim>\<open>added\<close> and a document
  is present under its identifier, or \<^verbatim>\<open>removed\<close> and none is present, or \<^verbatim>\<open>changed\<close>
  and none is present, or its kind is none of \<^verbatim>\<open>replace\<close>, \<^verbatim>\<open>added\<close>, \<^verbatim>\<open>removed\<close>,
  \<^verbatim>\<open>changed\<close>. The only other error is the TypeError of \<^verbatim>\<open>Object.keys(msg.fields)\<close>,
  raised if and only if the message is \<^verbatim>\<open>changed\<close>, a document is present and the
  message has no \<^verbatim>\<open>fields\<close>. In every other case the store returns normally, and the
  application of the message to the collection fails exactly when the store does.
\<close>

theorem server_update_errors:
  "((\<exists>s. wrappedStoreServer_update idParse equals (docs c) m = Inl (Error s)) =
      ((msg_msg m = ''added'' \<and> docs c (idParse (msg_id m)) \<noteq> None)
       \<or> (msg_msg m = ''removed'' \<and> docs c (idParse (msg_id m)) = None)
       \<or> (msg_msg m = ''changed'' \<and> docs c (idParse (msg_id m)) = None)
       \<or> msg_msg m \<notin> {''replace'', ''added'', ''removed'', ''changed''}))
   \<and> ((wrappedStoreServer_update idParse equals (docs c) m = Inl TypeError) =
      (msg_msg m = ''changed'' \<and> docs c (idParse (msg_id m)) \<noteq> None
       \<and> msg_fields m = None))
   \<and> ((\<exists>e. wrappedStoreServer_update idParse equals (docs c) m = Inl e) =
      ((msg_msg m = ''added'' \<and> docs c (idParse (msg_id m)) \<noteq> None)
       \<or> (msg_msg m = ''removed'' \<and> docs c (idParse (msg_id m)) = None)
       \<or> (msg_msg m = ''changed'' \<and> docs c (idParse (msg_id m)) = None)
       \<or> msg_msg m \<notin> {''replace'', ''added'', ''removed'', ''changed''}
       \<or> (msg_msg m = ''changed'' \<and> docs c (idParse (msg_id m)) \<noteq> None
           \<and> msg_fields m = None)))
   \<and> ((\<exists>e. server_apply idParse equals c m = Inl e) =
      (\<exists>e. wrappedStoreServer_update idParse equals (docs c) m = Inl e))"
proof -
  have 1: "(\<exists>s. wrappedStoreServer_update idParse equals (docs c) m = Inl (Error s)) =
      ((msg_msg m = ''added'' \<and> docs c (idParse (msg_id m)) \<noteq> None)
       \<or> (msg_msg m = ''removed'' \<and> docs c (idParse (msg_id m)) = None)
       \<or> (msg_msg m = ''changed'' \<and> docs c (idParse (msg_id m)) = None)
       \<or> msg_msg m \<notin> {''replace'', ''added'', ''removed'', ''changed''})"
    by (auto simp: wrappedStoreServer_update_def Let_def split: option.splits)
  have 2: "(wrappedStoreServer_update idParse equals (docs c) m = Inl TypeError) =
      (msg_msg m = ''changed'' \<and> docs c (idParse (msg_id m)) \<noteq> None
       \<and> msg_fields m = None)"
    by (auto simp: wrappedStoreServer_update_def Let_def split: option.splits)
  have 3: "(\<exists>e. wrappedStoreServer_update idParse equals (docs c) m = Inl e) =
      ((\<exists>s. wrappedStoreServer_update idParse equals (docs c) m = Inl (Error s))
       \<or> wrappedStoreServer_update idParse equals (docs c) m = Inl TypeError)"
    by (metis error.exhaust)
  have 4: "(\<exists>e. server_apply idParse equals c m = Inl e) =
     (\<exists>e. wrappedStoreServer_update idParse equals (docs c) m = Inl e)"
    by (auto simp: server_apply_def split: sum.splits)
  from 1 2 3 4 show ?thesis by blast
qed

theorem server_update_errors_witness:
  "(\<exists>e. server_apply JStr (=) \<lparr>docs = Map.empty, paused = False\<rparr>
          \<lparr>msg_msg = ''removed'', msg_id = ''a'', msg_fields = None, msg_replace = None\<rparr>
        = Inl e)
   \<and> (\<nexists>e. server_apply JStr (=) \<lparr>docs = Map.empty, paused = False\<rparr>
          \<lparr>msg_msg = ''added'', msg_id = ''a'', msg_fields = Some [(''x'', JNum 1)],
           msg_replace = None\<rparr> = Inl e)
   \<and> (\<exists>e. server_apply JStr (=) \<lparr>docs = Map.empty, paused = False\<rparr>
          \<lparr>msg_msg = ''moved'', msg_id = ''a'', msg_fields = None, msg_replace = None\<rparr>
        = Inl e)
   \<and> (\<nexists>e. server_apply JStr (=)
          \<lparr>docs = [JStr ''a'' \<mapsto> [(''_id'', JStr ''a'')]], paused = False\<rparr>
          \<lparr>msg_msg = ''changed'', msg_id = ''a'', msg_fields = Some [(''x'', JNum 1)],
           msg_replace = None\<rparr> = Inl e)"
  using
    server_update_errors [of JStr "(=)" "\<lparr>docs = Map.empty, paused = False\<rparr>"
      "\<lparr>msg_msg = ''removed'', msg_id = ''a'', msg_fields = None, msg_replace = None\<rparr>"]
    server_update_errors [of JStr "(=)" "\<lparr>docs = Map.empty, paused = False\<rparr>"
      "\<lparr>msg_msg = ''added'', msg_id = ''a'', msg_fields = Some [(''x'', JNum 1)],
        msg_replace = None\<rparr>"]
    server_update_errors [of JStr "(=)" "\<lparr>docs = Map.empty, paused = False\<rparr>"
      "\<lparr>msg_msg = ''moved'', msg_id = ''a'', msg_fields = None, msg_replace = None\<rparr>"]
    server_update_errors [of JStr "(=)"
      "\<lparr>docs = [JStr ''a'' \<mapsto> [(''_id'', JStr ''a'')]], paused = False\<rparr>"
      "\<lparr>msg_msg = ''changed'', msg_id = ''a'', msg_fields = Some [(''x'', JNum 1)],
        msg_replace = None\<rparr>"]
  by simp

text \<open>
  The claim as first stated, that no error is raised outside the four cases, fails for
  a \<^verbatim>\<open>changed\<close> message without \<^verbatim>\<open>fields\<close> whose document is present: none of the four
  cases holds, and the store raises a TypeError.
\<close>

theorem server_update_errors_counterexample:
  "wrappedStoreServer_update JStr (=) [JStr ''a'' \<mapsto> [(''_id'', JStr ''a'')]]
     \<lparr>msg_msg = ''changed'', msg_id = ''a'', msg_fields = None, msg_replace = None\<rparr>
     = Inl TypeError
   \<and> \<not> ((msg_msg \<lparr>msg_msg = ''changed'', msg_id = ''a'', msg_fields = None,
                   msg_replace = None\<rparr> = ''added''
           \<and> [JStr ''a'' \<mapsto> [(''_id'', JStr ''a'')]] (JStr ''a'') \<noteq> None)
          \<or> (msg_msg \<lparr>msg_msg = ''changed'', msg_id = ''a'', msg_fields = None,
                   msg_replace = None\<rparr> = ''removed''
              \<and> [JStr ''a'' \<mapsto> [(''_id'', JStr ''a'')]] (JStr ''a'') = None)
          \<or> (msg_msg \<lparr>msg_msg = ''changed'', msg_id = ''a'', msg_fields = None,
                   msg_replace = None\<rparr> = ''changed''
              \<and> [JStr ''a'' \<mapsto> [(''_id'', JStr ''a'')]] (JStr ''a'') = None)
          \<or> msg_msg \<lparr>msg_msg = ''changed'', msg_id = ''a'', msg_fields = None,
                   msg_replace = None\<rparr> \<notin> {''replace'', ''added'', ''removed'', ''changed''})"
  by (simp add: wrappedStoreServer_update_def)

section \<open>Soft merge in the client store\<close>

text \<open>
  C2. In soft mode (the client store, \<^verbatim>\<open>Meteor.isClient\<close> true): an \<^verbatim>\<open>added\<close> message
  for a document that is present is processed as the \<^verbatim>\<open>changed\<close> message with the same
  content; a \<^verbatim>\<open>removed\<close> message for a document that is not present makes no call and
  raises no error; a \<^verbatim>\<open>changed\<close> message for a document that is not present is processed
  as the \<^verbatim>\<open>added\<close> message whose field object has lost every field with value
  \<open>Undefined\<close>: the document inserted is \<^verbatim>\<open>{ _id: mongoId, ...fields }\<close> of the remaining
  fields, so apart from \<^verbatim>\<open>_id\<close> it has exactly the defined fields of the message, with
  their values.
\<close>

theorem client_soft_merge:
  "(table (idParse (msg_id m)) \<noteq> None \<longrightarrow>
      wrappedStoreClient_update True idParse equals table (m\<lparr>msg_msg := ''added''\<rparr>)
        = wrappedStoreClient_update True idParse equals table (m\<lparr>msg_msg := ''changed''\<rparr>))
   \<and> (table (idParse (msg_id m)) = None \<longrightarrow>
      wrappedStoreClient_update True idParse equals table (m\<lparr>msg_msg := ''removed''\<rparr>) = Inr [])
   \<and> (table (idParse (msg_id m)) = None \<longrightarrow>
      wrappedStoreClient_update True idParse equals table (m\<lparr>msg_msg := ''changed''\<rparr>)
        = wrappedStoreClient_update True idParse equals table
            (m\<lparr>msg_msg := ''added'',
               msg_fields := map_option delete_undefined_fields (msg_fields m)\<rparr>)
      \<and> wrappedStoreClient_update True idParse equals table (m\<lparr>msg_msg := ''changed''\<rparr>)
        = Inr [insert_call (obj_spread [(''_id'', idParse (msg_id m))]
                 (own_fields (map_option delete_undefined_fields (msg_fields m))))]
      \<and> (\<forall>k. k \<noteq> ''_id'' \<longrightarrow>
            has_key (obj_spread [(''_id'', idParse (msg_id m))]
                       (own_fields (map_option delete_undefined_fields (msg_fields m)))) k
              = (has_key (own_fields (msg_fields m)) k
                 \<and> obj_get (own_fields (msg_fields m)) k \<noteq> Undefined)
            \<and> obj_get (obj_spread [(''_id'', idParse (msg_id m))]
                       (own_fields (map_option delete_undefined_fields (msg_fields m)))) k
              = obj_get (own_fields (msg_fields m)) k))"
proof (intro conjI impI allI)
  assume "table (idParse (msg_id m)) \<noteq> None"
  then show "wrappedStoreClient_update True idParse equals table (m\<lparr>msg_msg := ''added''\<rparr>)
        = wrappedStoreClient_update True idParse equals table (m\<lparr>msg_msg := ''changed''\<rparr>)"
    by (auto simp: wrappedStoreClient_update_def soft_merge_def Let_def)
next
  assume "table (idParse (msg_id m)) = None"
  then show "wrappedStoreClient_update True idParse equals table (m\<lparr>msg_msg := ''removed''\<rparr>)
        = Inr []"
    by (simp add: wrappedStoreClient_update_def soft_merge_def)
next
  assume a: "table (idParse (msg_id m)) = None"
  then show "wrappedStoreClient_update True idParse equals table (m\<lparr>msg_msg := ''changed''\<rparr>)
        = wrappedStoreClient_update True idParse equals table
            (m\<lparr>msg_msg := ''added'',
               msg_fields := map_option delete_undefined_fields (msg_fields m)\<rparr>)"
    by (simp add: wrappedStoreClient_update_def soft_merge_def)
  from a show "wrappedStoreClient_update True idParse equals table (m\<lparr>msg_msg := ''changed''\<rparr>)
        = Inr [insert_call (obj_spread [(''_id'', idParse (msg_id m))]
                 (own_fields (map_option delete_undefined_fields (msg_fields m))))]"
    by (simp add: wrappedStoreClient_update_def soft_merge_def)
next
  fix k :: string
  assume "k \<noteq> ''_id''"
  then show "has_key (obj_spread [(''_id'', idParse (msg_id m))]
                       (own_fields (map_option delete_undefined_fields (msg_fields m)))) k
              = (has_key (own_fields (msg_fields m)) k
                 \<and> obj_get (own_fields (msg_fields m)) k \<noteq> Undefined)"
    by (simp add: has_key_def [of "obj_spread _ _"] map_of_obj_spread has_key_cleared_fields)
next
  fix k :: string
  assume "k \<noteq> ''_id''"
  then show "obj_get (obj_spread [(''_id'', idParse (msg_id m))]
                       (own_fields (map_option delete_undefined_fields (msg_fields m)))) k
              = obj_get (own_fields (msg_fields m)) k"
    using obj_get_no_key [of "own_fields (msg_fields m)" k]
    by (auto simp: obj_get_def [of "obj_spread _ _"] map_of_obj_spread
          has_key_cleared_fields obj_get_cleared_fields)
qed

theorem client_soft_merge_witness:
  "wrappedStoreClient_update True JStr (=) Map.empty
        \<lparr>msg_msg = ''changed'', msg_id = ''1'',
         msg_fields = Some [(''a'', JNum 1), (''b'', Undefined)], msg_replace = None\<rparr>
      = Inr [insert_call [(''_id'', JStr ''1''), (''a'', JNum 1)]]
   \<and> wrappedStoreClient_update True JStr (=) Map.empty
        \<lparr>msg_msg = ''removed'', msg_id = ''1'',
         msg_fields = Some [(''a'', JNum 1), (''b'', Undefined)], msg_replace = None\<rparr>
      = Inr []
   \<and> [JStr ''1'' \<mapsto> [(''_id'', JStr ''1''), (''a'', JNum 1)]] (JStr ''1'') \<noteq> None
   \<and> wrappedStoreClient_update True JStr (=)
        [JStr ''1'' \<mapsto> [(''_id'', JStr ''1''), (''a'', JNum 1)]]
        \<lparr>msg_msg = ''added'', msg_id = ''1'', msg_fields = Some [(''a'', JNum 2)],
         msg_replace = None\<rparr>
      = wrappedStoreClient_update True JStr (=)
        [JStr ''1'' \<mapsto> [(''_id'', JStr ''1''), (''a'', JNum 1)]]
        \<lparr>msg_msg = ''changed'', msg_id = ''1'', msg_fields = Some [(''a'', JNum 2)],
         msg_replace = None\<rparr>"
proof -
  have h1: "Map.empty (JStr (msg_id \<lparr>msg_msg = ''x'', msg_id = ''1'',
         msg_fields = Some [(''a'', JNum 1), (''b'', Undefined)], msg_replace = None\<rparr>))
       = (None :: obj option)"
    by simp
  have h2: "[JStr ''1'' \<mapsto> [(''_id'', JStr ''1''), (''a'', JNum 1)]]
      (JStr (msg_id \<lparr>msg_msg = ''x'', msg_id = ''1'', msg_fields = Some [(''a'', JNum 2)],
         msg_replace = None\<rparr>)) \<noteq> None"
    by simp
  note a = client_soft_merge [where table = Map.empty and idParse = JStr and equals = "(=)"
      and m = "\<lparr>msg_msg = ''x'', msg_id = ''1'',
         msg_fields = Some [(''a'', JNum 1), (''b'', Undefined)], msg_replace = None\<rparr>"]
  note b = client_soft_merge [where
      table = "[JStr ''1'' \<mapsto> [(''_id'', JStr ''1''), (''a'', JNum 1)]]"
      and idParse = JStr and equals = "(=)"
      and m = "\<lparr>msg_msg = ''x'', msg_id = ''1'', msg_fields = Some [(''a'', JNum 2)],
         msg_replace = None\<rparr>"]
  from a [THEN conjunct2, THEN conjunct2, THEN mp, OF h1, THEN conjunct2, THEN conjunct1]
  have c: "wrappedStoreClient_update True JStr (=) Map.empty
        \<lparr>msg_msg = ''changed'', msg_id = ''1'',
         msg_fields = Some [(''a'', JNum 1), (''b'', Undefined)], msg_replace = None\<rparr>
      = Inr [insert_call (obj_spread [(''_id'', JStr ''1'')]
                 (own_fields (map_option delete_undefined_fields
                    (Some [(''a'', JNum 1), (''b'', Undefined)]))))]"
    by simp
  have ev: "obj_spread [(''_id'', JStr ''1'')]
                 (own_fields (map_option delete_undefined_fields
                    (Some [(''a'', JNum 1), (''b'', Undefined)])))
       = [(''_id'', JStr ''1''), (''a'', JNum 1)]"
    by (simp add: obj_spread_def delete_undefined_fields_def Object_keys_def obj_get_def
          obj_delete_def own_fields_def)
  from a [THEN conjunct2, THEN conjunct1, THEN mp, OF h1]
  have r: "wrappedStoreClient_update True JStr (=) Map.empty
        \<lparr>msg_msg = ''removed'', msg_id = ''1'',
         msg_fields = Some [(''a'', JNum 1), (''b'', Undefined)], msg_replace = None\<rparr>
      = Inr []"
    by simp
  from b [THEN conjunct1, THEN mp, OF h2]
  have ad: "wrappedStoreClient_update True JStr (=)
        [JStr ''1'' \<mapsto> [(''_id'', JStr ''1''), (''a'', JNum 1)]]
        \<lparr>msg_msg = ''added'', msg_id = ''1'', msg_fields = Some [(''a'', JNum 2)],
         msg_replace = None\<rparr>
      = wrappedStoreClient_update True JStr (=)
        [JStr ''1'' \<mapsto> [(''_id'', JStr ''1''), (''a'', JNum 1)]]
        \<lparr>msg_msg = ''changed'', msg_id = ''1'', msg_fields = Some [(''a'', JNum 2)],
         msg_replace = None\<rparr>"
    by simp
  from c ev r ad show ?thesis by simp
qed

section \<open>Replace messages\<close>

text \<open>
  C3. For a \<^verbatim>\<open>replace\<close> message, in the client store and in the server store, no error
  is raised whatever the table holds, and: with no replacement, the document under the
  identifier is removed when there is one and nothing is called when there is none; with
  a replacement and no document, the replacement is inserted as a new document; with a
  replacement and a document, the stored document becomes the replacement (the identifier
  \<^verbatim>\<open>_id\<close> stays), so a field of the old document that the replacement does not have is
  gone.
\<close>

theorem replace_message:
  assumes "msg_msg m = ''replace''"
  shows
    "(\<nexists>e. wrappedStoreClient_update isClient idParse equals (docs c) m = Inl e)
     \<and> (\<nexists>e. wrappedStoreServer_update idParse equals (docs c) m = Inl e)
     \<and> (msg_replace m = None \<and> docs c (idParse (msg_id m)) \<noteq> None \<longrightarrow>
          wrappedStoreClient_update isClient idParse equals (docs c) m
            = Inr [remove_call (ById (idParse (msg_id m)))]
          \<and> wrappedStoreServer_update idParse equals (docs c) m
            = Inr [removeAsync (ById (idParse (msg_id m)))]
          \<and> client_apply isClient idParse equals c m
            = Inr (c\<lparr>docs := (docs c)(idParse (msg_id m) := None)\<rparr>)
          \<and> server_apply idParse equals c m
            = Inr (c\<lparr>docs := (docs c)(idParse (msg_id m) := None)\<rparr>))
     \<and> (msg_replace m = None \<and> docs c (idParse (msg_id m)) = None \<longrightarrow>
          wrappedStoreClient_update isClient idParse equals (docs c) m = Inr []
          \<and> wrappedStoreServer_update idParse equals (docs c) m = Inr []
          \<and> client_apply isClient idParse equals c m = Inr c
          \<and> server_apply idParse equals c m = Inr c)
     \<and> (\<forall>rep. msg_replace m = Some rep \<and> docs c (idParse (msg_id m)) = None \<longrightarrow>
          wrappedStoreClient_update isClient idParse equals (docs c) m = Inr [insert_call rep]
          \<and> wrappedStoreServer_update idParse equals (docs c) m = Inr [insertAsync rep]
          \<and> client_apply isClient idParse equals c m
            = Inr (c\<lparr>docs := (docs c)(obj_get rep ''_id'' \<mapsto> rep)\<rparr>)
          \<and> server_apply idParse equals c m
            = Inr (c\<lparr>docs := (docs c)(obj_get rep ''_id'' \<mapsto> rep)\<rparr>))
     \<and> (\<forall>rep d. msg_replace m = Some rep \<and> docs c (idParse (msg_id m)) = Some d \<longrightarrow>
          wrappedStoreClient_update isClient idParse equals (docs c) m
            = Inr [update_call (idParse (msg_id m)) (Replacement rep)]
          \<and> wrappedStoreServer_update idParse equals (docs c) m
            = Inr [updateAsync (idParse (msg_id m)) (Replacement rep)]
          \<and> client_apply isClient idParse equals c m
            = Inr (c\<lparr>docs := (docs c)(idParse (msg_id m) \<mapsto> keep_id d rep)\<rparr>)
          \<and> server_apply idParse equals c m
            = Inr (c\<lparr>docs := (docs c)(idParse (msg_id m) \<mapsto> keep_id d rep)\<rparr>)
          \<and> map_of (keep_id d rep) ''_id'' = map_of d ''_id''
          \<and> (\<forall>k. k \<noteq> ''_id'' \<longrightarrow> map_of (keep_id d rep) k = map_of rep k))"
proof -
  have sm: "soft_merge isClient (docs c (idParse (msg_id m))) m = Some m"
    using assms by (simp add: soft_merge_def)
  have cl: "wrappedStoreClient_update isClient idParse equals (docs c) m =
      (case msg_replace m of
         None \<Rightarrow> (if docs c (idParse (msg_id m)) \<noteq> None
                   then Inr [remove_call (ById (idParse (msg_id m)))] else Inr [])
       | Some rep \<Rightarrow>
           (if docs c (idParse (msg_id m)) = None then Inr [insert_call rep]
            else Inr [update_call (idParse (msg_id m)) (Replacement rep)]))"
    using assms by (simp add: wrappedStoreClient_update_def sm Let_def)
  have sv: "wrappedStoreServer_update idParse equals (docs c) m =
      (case msg_replace m of
         None \<Rightarrow> (if docs c (idParse (msg_id m)) \<noteq> None
                   then Inr [removeAsync (ById (idParse (msg_id m)))] else Inr [])
       | Some rep \<Rightarrow>
           (if docs c (idParse (msg_id m)) = None then Inr [insertAsync rep]
            else Inr [updateAsync (idParse (msg_id m)) (Replacement rep)]))"
    using assms by (simp add: wrappedStoreServer_update_def Let_def)
  show ?thesis
    by (auto simp: client_apply_def server_apply_def cl sv run_calls_def map_of_keep_id
          split: option.splits)
qed

theorem replace_message_witness:
  "client_apply True JStr (=)
     \<lparr>docs = [JStr ''1'' \<mapsto> [(''_id'', JStr ''1''), (''a'', JNum 1), (''b'', JNum 2)]],
      paused = False\<rparr>
     \<lparr>msg_msg = ''replace'', msg_id = ''1'', msg_fields = None,
      msg_replace = Some [(''_id'', JStr ''1''), (''a'', JNum 5)]\<rparr>
   = Inr \<lparr>docs = [JStr ''1'' \<mapsto> [(''_id'', JStr ''1''), (''a'', JNum 5)]], paused = False\<rparr>
   \<and> server_apply JStr (=)
     \<lparr>docs = [JStr ''1'' \<mapsto> [(''_id'', JStr ''1''), (''a'', JNum 1), (''b'', JNum 2)]],
      paused = False\<rparr>
     \<lparr>msg_msg = ''replace'', msg_id = ''1'', msg_fields = None,
      msg_replace = Some [(''_id'', JStr ''1''), (''a'', JNum 5)]\<rparr>
   = Inr \<lparr>docs = [JStr ''1'' \<mapsto> [(''_id'', JStr ''1''), (''a'', JNum 5)]], paused = False\<rparr>"
proof -
  have h: "msg_msg \<lparr>msg_msg = ''replace'', msg_id = ''1'', msg_fields = None,
      msg_replace = Some [(''_id'', JStr ''1''), (''a'', JNum 5)]\<rparr> = ''replace''"
    by simp
  have k: "keep_id [(''_id'', JStr ''1''), (''a'', JNum 1), (''b'', JNum 2)]
             [(''_id'', JStr ''1''), (''a'', JNum 5)]
           = [(''_id'', JStr ''1''), (''a'', JNum 5)]"
    by (simp add: keep_id_def)
  from replace_message [OF h, where isClient = True and idParse = JStr and equals = "(=)"
      and c = "\<lparr>docs = [JStr ''1'' \<mapsto>
                   [(''_id'', JStr ''1''), (''a'', JNum 1), (''b'', JNum 2)]],
                 paused = False\<rparr>"]
  show ?thesis by (simp add: k)
qed

section \<open>The delta of a changed message\<close>




section \<open>Beginning a batch\<close>

text \<open>
  C5. \<^verbatim>\<open>beginUpdate(batchSize, reset)\<close> of either store calls \<^verbatim>\<open>pauseObservers\<close> exactly
  when \<^verbatim>\<open>batchSize > 1\<close> or \<^verbatim>\<open>reset\<close>, so that afterwards the notifications are paused
  exactly when they were paused before or one of the two holds. With \<^verbatim>\<open>reset\<close> it
  pauses and then removes with the selector \<^verbatim>\<open>{}\<close>, and makes no other call: the table
  is empty afterwards, whatever it held; an empty table stays as it was; a second reset
  gives the same collection as the first. Without \<^verbatim>\<open>reset\<close> the table is untouched.
\<close>

theorem beginUpdate_pause_reset:
  "(pauseObservers \<in> set (wrappedStoreClient_beginUpdate batchSize reset))
      = (batchSize > 1 \<or> reset)
   \<and> (pauseObservers \<in> set (wrappedStoreServer_beginUpdate batchSize reset))
      = (batchSize > 1 \<or> reset)
   \<and> paused (run_calls (wrappedStoreClient_beginUpdate batchSize reset) c)
      = (paused c \<or> batchSize > 1 \<or> reset)
   \<and> paused (run_calls (wrappedStoreServer_beginUpdate batchSize reset) c)
      = (paused c \<or> batchSize > 1 \<or> reset)
   \<and> wrappedStoreClient_beginUpdate batchSize True = [pauseObservers, remove_call Everything]
   \<and> wrappedStoreServer_beginUpdate batchSize True = [pauseObservers, removeAsync Everything]
   \<and> docs (run_calls (wrappedStoreClient_beginUpdate batchSize True) c) = Map.empty
   \<and> docs (run_calls (wrappedStoreServer_beginUpdate batchSize True) c) = Map.empty
   \<and> docs (run_calls (wrappedStoreClient_beginUpdate batchSize False) c) = docs c
   \<and> docs (run_calls (wrappedStoreServer_beginUpdate batchSize False) c) = docs c
   \<and> (docs c = Map.empty \<longrightarrow>
        docs (run_calls (wrappedStoreClient_beginUpdate batchSize True) c) = docs c
        \<and> docs (run_calls (wrappedStoreServer_beginUpdate batchSize True) c) = docs c)
   \<and> run_calls (wrappedStoreClient_beginUpdate batchSize' True)
        (run_calls (wrappedStoreClient_beginUpdate batchSize True) c)
      = run_calls (wrappedStoreClient_beginUpdate batchSize True) c
   \<and> run_calls (wrappedStoreServer_beginUpdate batchSize' True)
        (run_calls (wrappedStoreServer_beginUpdate batchSize True) c)
      = run_calls (wrappedStoreServer_beginUpdate batchSize True) c"
  by (auto simp: wrappedStoreClient_beginUpdate_def wrappedStoreServer_beginUpdate_def
        run_calls_def)


theorem beginUpdate_pause_reset_witness:
  "docs (run_calls (wrappedStoreClient_beginUpdate 1 True)
           \<lparr>docs = [JStr ''1'' \<mapsto> [(''_id'', JStr ''1'')]], paused = False\<rparr>) = Map.empty
   \<and> docs (run_calls (wrappedStoreServer_beginUpdate 1 True)
           \<lparr>docs = [JStr ''1'' \<mapsto> [(''_id'', JStr ''1'')]], paused = False\<rparr>) = Map.empty
   \<and> paused (run_calls (wrappedStoreClient_beginUpdate 1 True)
           \<lparr>docs = [JStr ''1'' \<mapsto> [(''_id'', JStr ''1'')]], paused = False\<rparr>) = True
   \<and> docs (run_calls (wrappedStoreServer_beginUpdate 1 True)
           \<lparr>docs = Map.empty, paused = False\<rparr>) = Map.empty
   \<and> paused (run_calls (wrappedStoreClient_beginUpdate 1 False)
           \<lparr>docs = Map.empty, paused = False\<rparr>) = False
   \<and> paused (run_calls (wrappedStoreServer_beginUpdate 2 False)
           \<lparr>docs = Map.empty, paused = False\<rparr>) = True"
  using
    beginUpdate_pause_reset [of 1 True
      "\<lparr>docs = [JStr ''1'' \<mapsto> [(''_id'', JStr ''1'')]], paused = False\<rparr>" 1]
    beginUpdate_pause_reset [of 1 True "\<lparr>docs = Map.empty, paused = False\<rparr>" 1]
    beginUpdate_pause_reset [of 1 False "\<lparr>docs = Map.empty, paused = False\<rparr>" 1]
    beginUpdate_pause_reset [of 2 False "\<lparr>docs = Map.empty, paused = False\<rparr>" 1]
  by simp

section \<open>The selector guard rewrites dangerous selectors\<close>

text \<open>
  C6, as amended. For every selector and every second argument: a second argument
  \<^verbatim>\<open>null\<close> raises a TypeError; otherwise the fallback identifier is the property
  \<^verbatim>\<open>fallbackId\<close> of the second argument (\<^verbatim>\<open>undefined\<close> when there is none), and an array
  selector raises the error ``Mongo selector can't be an array.''; a falsy selector, and
  a selector object whose \<^verbatim>\<open>_id\<close> property is present but falsy, is rewritten to
  \<^verbatim>\<open>{_id: x}\<close>, where \<open>x\<close> is the fallback identifier when that is truthy and the
  identifier generated by \<^verbatim>\<open>Random.id()\<close> otherwise (also for a fallback that is given but
  falsy); a truthy number, string or ObjectID is returned in its expanded form
  \<^verbatim>\<open>{_id: scalar}\<close>; a truthy primitive that is none of these (\<^verbatim>\<open>true\<close>, a non-zero
  BigInt, a symbol) raises a TypeError; every other selector (an object, a function) is
  returned unchanged.
\<close>

theorem rewriteSelector_guard:
  "rewriteSelector randomId selector options =
     (case fallbackId_of options of
        Inl e \<Rightarrow> Inl TypeError
      | Inr fallbackId \<Rightarrow>
         (if isArray selector then Inl (Error ''Mongo selector can't be an array.'')
          else if \<not> truthy selector
                  \<or> (\<exists>ps. selector = JObject ps \<and> has_key ps ''_id''
                           \<and> \<not> truthy (obj_get ps ''_id''))
            then Inr (JObject [(''_id'', if truthy fallbackId then fallbackId else randomId)])
          else if selectorIsId selector then Inr (JObject [(''_id'', selector)])
          else if (\<exists>b. selector = JBool b) \<or> (\<exists>n. selector = JBigInt n)
                  \<or> (\<exists>s. selector = JSymbol s)
            then Inl TypeError
          else Inr selector))
   \<and> ((\<exists>e. fallbackId_of options = Inl e) = (options = Null))
   \<and> (\<forall>ps. fallbackId_of (JObject ps) = Inr (obj_get ps ''fallbackId''))
   \<and> fallbackId_of Undefined = Inr Undefined"
proof -
  have 1: "(\<exists>e. fallbackId_of options = Inl e) = (options = Null)"
    by (cases options) simp_all
  have 2: "\<forall>ps. fallbackId_of (JObject ps) = Inr (obj_get ps ''fallbackId'')"
    by (simp add: js_get_def obj_get_def Object_prototype_def split: option.splits)
  have 3: "fallbackId_of Undefined = Inr Undefined"
    by simp
  have 4: "rewriteSelector randomId selector options =
     (case fallbackId_of options of
        Inl e \<Rightarrow> Inl TypeError
      | Inr fallbackId \<Rightarrow>
         (if isArray selector then Inl (Error ''Mongo selector can't be an array.'')
          else if \<not> truthy selector
                  \<or> (\<exists>ps. selector = JObject ps \<and> has_key ps ''_id''
                           \<and> \<not> truthy (obj_get ps ''_id''))
            then Inr (JObject [(''_id'', if truthy fallbackId then fallbackId else randomId)])
          else if selectorIsId selector then Inr (JObject [(''_id'', selector)])
          else if (\<exists>b. selector = JBool b) \<or> (\<exists>n. selector = JBigInt n)
                  \<or> (\<exists>s. selector = JSymbol s)
            then Inl TypeError
          else Inr selector))"
  proof (cases "fallbackId_of options")
    case (Inl e)
    then have "options = Null" using 1 by blast
    then show ?thesis by (simp add: rewriteSelector_def)
  next
    case (Inr fallbackId)
    then show ?thesis
      by (cases selector)
         (auto simp: rewriteSelector_def Let_def js_in_id js_get_id has_key_def obj_get_def)
  qed
  from 1 2 3 4 show ?thesis by blast
qed

theorem rewriteSelector_guard_witness:
  "rewriteSelector (JStr ''fresh'') (JArray []) Undefined
     = Inl (Error ''Mongo selector can't be an array.'')
   \<and> rewriteSelector (JStr ''fresh'') Undefined Undefined
     = Inr (JObject [(''_id'', JStr ''fresh'')])
   \<and> rewriteSelector (JStr ''fresh'') (JBool False) (JObject [])
     = Inr (JObject [(''_id'', JStr ''fresh'')])
   \<and> rewriteSelector (JStr ''fresh'') (JObject [(''_id'', Null)])
       (JObject [(''fallbackId'', JStr ''fallback'')])
     = Inr (JObject [(''_id'', JStr ''fallback'')])
   \<and> rewriteSelector (JStr ''fresh'') (JObject [(''a'', JNum 1)]) Undefined
     = Inr (JObject [(''a'', JNum 1)])
   \<and> rewriteSelector (JStr ''fresh'') (JStr ''abc'') Undefined
     = Inr (JObject [(''_id'', JStr ''abc'')])
   \<and> rewriteSelector (JStr ''fresh'') (JSymbol ''s'') Undefined = Inl TypeError
   \<and> rewriteSelector (JStr ''fresh'') (JArray []) Null = Inl TypeError"
  using rewriteSelector_guard [of "JStr ''fresh''" "JArray []" Undefined, THEN conjunct1]
    rewriteSelector_guard [of "JStr ''fresh''" Undefined Undefined, THEN conjunct1]
    rewriteSelector_guard [of "JStr ''fresh''" "JBool False" "JObject []", THEN conjunct1]
    rewriteSelector_guard [of "JStr ''fresh''" "JObject [(''_id'', Null)]"
      "JObject [(''fallbackId'', JStr ''fallback'')]", THEN conjunct1]
    rewriteSelector_guard [of "JStr ''fresh''" "JObject [(''a'', JNum 1)]" Undefined,
      THEN conjunct1]
    rewriteSelector_guard [of "JStr ''fresh''" "JStr ''abc''" Undefined, THEN conjunct1]
    rewriteSelector_guard [of "JStr ''fresh''" "JSymbol ''s''" Undefined, THEN conjunct1]
    rewriteSelector_guard [of "JStr ''fresh''" "JArray []" Null, THEN conjunct1]
  by (simp add: has_key_def obj_get_def js_get_def Object_prototype_def)

text \<open>
  The claim as first stated fails on the selector \<^verbatim>\<open>true\<close>, which is neither an array
  nor falsy nor an object with a falsy \<^verbatim>\<open>_id\<close> and is not returned: \<^verbatim>\<open>'_id' in true\<close>
  raises a TypeError. It fails on a fallback identifier that is given but falsy, the
  empty string: the rewritten selector has the generated identifier. It fails on a falsy
  selector passed with the second argument \<^verbatim>\<open>null\<close>: that is not rewritten, binding the
  parameters raises a TypeError.
\<close>

theorem rewriteSelector_guard_counterexample:
  "rewriteSelector (JStr ''fresh'') (JBool True) Undefined = Inl TypeError
   \<and> rewriteSelector (JStr ''fresh'') (JBool True) Undefined \<noteq> Inr (JBool True)
   \<and> rewriteSelector (JStr ''fresh'') Undefined (JObject [(''fallbackId'', JStr [])])
       = Inr (JObject [(''_id'', JStr ''fresh'')])
   \<and> rewriteSelector (JStr ''fresh'') Undefined (JObject [(''fallbackId'', JStr [])])
       \<noteq> Inr (JObject [(''_id'', JStr [])])
   \<and> rewriteSelector (JStr ''fresh'') Undefined Null = Inl TypeError
   \<and> rewriteSelector (JStr ''fresh'') Undefined Null
       \<noteq> Inr (JObject [(''_id'', JStr ''fresh'')])"
  by (simp add: rewriteSelector_def js_get_def)

section \<open>The snapshot publisher forwards and registers its stop callback\<close>

text \<open>
  C7. \<^verbatim>\<open>_publishCursor\<close> observes the cursor with three callbacks that forward to
  \<^verbatim>\<open>sub.added(collection, id, fields)\<close>, \<^verbatim>\<open>sub.changed(collection, id, fields)\<close> and
  \<^verbatim>\<open>sub.removed(collection, id)\<close>, passing on the identifier and the fields they are
  given, and with the option \<^verbatim>\<open>nonMutatingCallbacks\<close> set. Whatever results the live
  query reports, the calls made on the subscription are the forwarded messages, one for
  each result in order, and never \<^verbatim>\<open>sub.ready()\<close>. When \<^verbatim>\<open>observeChanges\<close> fails, so does
  the publisher; otherwise the publisher itself makes one call, \<^verbatim>\<open>sub.onStop\<close> with a
  callback that stops the observe handle, and returns the handle.
\<close>

theorem publishCursor_forwards:
  "\<exists>cb opts.
     (\<forall>i flds. added cb i flds = [sub_added collection i flds])
     \<and> (\<forall>i flds. changed cb i flds = [sub_changed collection i flds])
     \<and> (\<forall>i. removed cb i = [sub_removed collection i])
     \<and> nonMutatingCallbacks opts
     \<and> (\<forall>evs. concat (map (dispatch cb) evs) = map (forwarded collection) evs)
     \<and> (\<forall>evs. sub_ready \<notin> set (concat (map (dispatch cb) evs)))
     \<and> (\<forall>observeChanges :: 'h observe_callbacks \<Rightarrow> observe_options \<Rightarrow> error + 'h.
          (\<forall>e. observeChanges cb opts = Inl e \<longrightarrow>
               publishCursor observeChanges collection = Inl e)
          \<and> (\<forall>h. observeChanges cb opts = Inr h \<longrightarrow>
               publishCursor observeChanges collection
                 = Inr ([sub_onStop [handle_stop h]], h)))"
proof -
  let ?cb = "\<lparr>added = (\<lambda>i flds. [sub_added collection i flds]),
              changed = (\<lambda>i flds. [sub_changed collection i flds]),
              removed = (\<lambda>i. [sub_removed collection i])\<rparr> :: 'h observe_callbacks"
  let ?opts = "\<lparr>nonMutatingCallbacks = True\<rparr>"
  have d: "dispatch ?cb ev = [forwarded collection ev]" for ev
    by (cases ev) simp_all
  have 1: "concat (map (dispatch ?cb) evs) = map (forwarded collection) evs" for evs
    by (induction evs) (simp_all add: d)
  have f: "(sub_ready :: 'h effect) \<noteq> forwarded collection ev" for ev
    by (cases ev) simp_all
  have 2: "(sub_ready :: 'h effect) \<notin> set (concat (map (dispatch ?cb) evs))" for evs
    unfolding 1 using f by auto
  have 3: "(\<forall>e. observeChanges ?cb ?opts = Inl e \<longrightarrow>
               publishCursor observeChanges collection = Inl e)
          \<and> (\<forall>h. observeChanges ?cb ?opts = Inr h \<longrightarrow>
               publishCursor observeChanges collection
                 = Inr ([sub_onStop [handle_stop h]], h))"
    for observeChanges :: "'h observe_callbacks \<Rightarrow> observe_options \<Rightarrow> error + 'h"
    by (simp add: publishCursor_def)
  show ?thesis
    apply (rule exI [of _ ?cb])
    apply (rule exI [of _ ?opts])
    using 1 2 3 by simp
qed

theorem publishCursor_forwards_witness:
  "publishCursor
     (\<lambda>cb opts. if nonMutatingCallbacks opts
                     \<and> added cb (JStr ''1'') [(''a'', JNum 1)]
                         = [sub_added ''posts'' (JStr ''1'') [(''a'', JNum 1)]]
                 then Inr (7 :: nat) else Inl (Error ''observeChanges failed''))
     ''posts''
   = Inr ([sub_onStop [handle_stop 7]], 7)"
proof -
  let ?obs = "\<lambda>(cb :: nat observe_callbacks) opts.
                 if nonMutatingCallbacks opts
                     \<and> added cb (JStr ''1'') [(''a'', JNum 1)]
                         = [sub_added ''posts'' (JStr ''1'') [(''a'', JNum 1)]]
                 then Inr (7 :: nat) else Inl (Error ''observeChanges failed'')"
  from publishCursor_forwards [where collection = "''posts''" and ?'h = nat]
  obtain cb :: "nat observe_callbacks" and opts where
    a: "\<forall>i flds. added cb i flds = [sub_added ''posts'' i flds]"
    and n: "nonMutatingCallbacks opts"
    and p: "\<forall>observeChanges :: nat observe_callbacks \<Rightarrow> observe_options \<Rightarrow> error + nat.
          (\<forall>e. observeChanges cb opts = Inl e \<longrightarrow>
               publishCursor observeChanges ''posts'' = Inl e)
          \<and> (\<forall>h. observeChanges cb opts = Inr h \<longrightarrow>
               publishCursor observeChanges ''posts''
                 = Inr ([sub_onStop [handle_stop h]], h))"
    by blast
  from a n have o: "?obs cb opts = Inr 7" by simp
  from p [THEN spec [where x = ?obs], THEN conjunct2, THEN spec [where x = 7], THEN mp, OF o]
  show ?thesis .
qed

section \<open>A registration conflict is logged\<close>

text \<open>
  C8. On a connection that has both registration methods, when the registration of the
  store (of the client store if \<^verbatim>\<open>Meteor.isClient\<close>, of the server store otherwise)
  returns a falsy value, or a promise that resolves to a falsy value, the set-up raises
  no error and logs the message \<^verbatim>\<open>There is already a collection named "name"\<close>, with
  \<^verbatim>\<open>console.warn\<close> where that exists and \<^verbatim>\<open>console.log\<close> otherwise; when it returns a
  truthy value, or a promise that resolves to one, nothing is logged.
\<close>

theorem registration_conflict:
  assumes "registerStoreClient c = Some regClient"
    and "registerStoreServer c = Some regServer"
    and "r = (if isClient then regClient name wrappedStoreClient
              else regServer name wrappedStoreServer)"
  shows
    "(r = Falsy \<or> r = Thenable (Inr False) \<longrightarrow>
        maybeSetUpReplication isClient has_warn (Some c) name
          = Inr (logWarn has_warn
                   (''There is already a collection named '' @ [CHR 0x22] @ name @ [CHR 0x22]))
        \<and> logWarn has_warn
             (''There is already a collection named '' @ [CHR 0x22] @ name @ [CHR 0x22])
           = (if has_warn
              then [console_warn
                      (''There is already a collection named '' @ [CHR 0x22] @ name
                         @ [CHR 0x22])]
              else [console_log
                      (''There is already a collection named '' @ [CHR 0x22] @ name
                         @ [CHR 0x22])]))
     \<and> (r = Truthy \<or> r = Thenable (Inr True) \<longrightarrow>
        maybeSetUpReplication isClient has_warn (Some c) name = Inr [])"
  using assms
  by (auto simp: maybeSetUpReplication_def Let_def logWarn_def)

theorem registration_conflict_witness:
  "maybeSetUpReplication True True
     (Some \<lparr>registerStoreClient = Some (\<lambda>n s. Falsy),
            registerStoreServer = Some (\<lambda>n s. Thenable (Inr True))\<rparr>) ''posts''
     = Inr [console_warn (''There is already a collection named '' @ [CHR 0x22] @ ''posts''
                            @ [CHR 0x22])]
   \<and> maybeSetUpReplication False True
     (Some \<lparr>registerStoreClient = Some (\<lambda>n s. Falsy),
            registerStoreServer = Some (\<lambda>n s. Thenable (Inr True))\<rparr>) ''posts''
     = Inr []"
proof -
  let ?c = "\<lparr>registerStoreClient = Some (\<lambda>n s. Falsy),
            registerStoreServer = Some (\<lambda>n s. Thenable (Inr True))\<rparr>"
  have h1: "registerStoreClient ?c = Some (\<lambda>n s. Falsy)"
    and h2: "registerStoreServer ?c = Some (\<lambda>n s. Thenable (Inr True))"
    by simp_all
  have r1: "Falsy = (if True then (\<lambda>n s. Falsy) ''posts'' wrappedStoreClient
                     else (\<lambda>n s. Thenable (Inr True)) ''posts'' wrappedStoreServer)"
    by simp
  have r2: "Thenable (Inr True)
              = (if False then (\<lambda>n s. Falsy) ''posts'' wrappedStoreClient
                 else (\<lambda>n s. Thenable (Inr True)) ''posts'' wrappedStoreServer)"
    by simp
  from registration_conflict [where c = ?c and isClient = True and has_warn = True
      and name = "''posts''", OF h1 h2 r1]
  have a: "maybeSetUpReplication True True (Some ?c) ''posts''
     = Inr [console_warn (''There is already a collection named '' @ [CHR 0x22] @ ''posts''
                            @ [CHR 0x22])]"
    by (simp add: logWarn_def)
  from registration_conflict [where c = ?c and isClient = False and has_warn = True
      and name = "''posts''", OF h1 h2 r2]
  have b: "maybeSetUpReplication False True (Some ?c) ''posts'' = Inr []"
    by simp
  from a b show ?thesis by simp
qed

section \<open>Soft-mode added as a partial merge\<close>



section \<open>The frame of a changed message\<close>

text \<open>
  C10. A \<^verbatim>\<open>changed\<close> message with a field object for a document \<open>d\<close> that is present, in
  the server store and in the client store, raises no error; afterwards there is a
  document under the same identifier whose \<^verbatim>\<open>_id\<close> is that of \<open>d\<close> and in which every
  field that the field object of the message does not name is as it was in \<open>d\<close>, and
  the document under any other identifier is the one that was there. A \<^verbatim>\<open>changed\<close>
  message without \<^verbatim>\<open>fields\<close> raises a TypeError in either store, which makes no call:
  nothing is modified.
\<close>

theorem changed_frame_effect:
  assumes "msg_msg m = ''changed''" and "docs c (idParse (msg_id m)) = Some d"
  shows
    "(msg_fields m = None \<longrightarrow>
        wrappedStoreServer_update idParse equals (docs c) m = Inl TypeError
        \<and> server_apply idParse equals c m = Inl TypeError
        \<and> wrappedStoreClient_update isClient idParse equals (docs c) m = Inl TypeError
        \<and> client_apply isClient idParse equals c m = Inl TypeError)
     \<and> (msg_fields m \<noteq> None \<longrightarrow>
        (\<exists>c' d'. server_apply idParse equals c m = Inr c'
          \<and> docs c' (idParse (msg_id m)) = Some d'
          \<and> map_of d' ''_id'' = map_of d ''_id''
          \<and> (\<forall>k. \<not> has_key (own_fields (msg_fields m)) k \<longrightarrow> map_of d' k = map_of d k)
          \<and> (\<forall>j. j \<noteq> idParse (msg_id m) \<longrightarrow> docs c' j = docs c j))
        \<and> (\<exists>c' d'. client_apply isClient idParse equals c m = Inr c'
          \<and> docs c' (idParse (msg_id m)) = Some d'
          \<and> map_of d' ''_id'' = map_of d ''_id''
          \<and> (\<forall>k. \<not> has_key (own_fields (msg_fields m)) k \<longrightarrow> map_of d' k = map_of d k)
          \<and> (\<forall>j. j \<noteq> idParse (msg_id m) \<longrightarrow> docs c' j = docs c j)))"
proof (cases "msg_fields m")
  case None
  have "wrappedStoreServer_update idParse equals (docs c) m = Inl TypeError"
    using assms None by (rule changed_no_fields_server)
  moreover have "wrappedStoreClient_update isClient idParse equals (docs c) m = Inl TypeError"
    using assms None by (rule changed_no_fields_client)
  ultimately show ?thesis
    using None by (simp add: server_apply_def client_apply_def)
next
  case (Some flds)
  let ?i = "idParse (msg_id m)"
  let ?M = "changed_modifier equals d flds (Object_keys flds)"
  let ?c = "if modifier_nonempty ?M
            then c\<lparr>docs := (docs c)(?i \<mapsto> table_update (Modifier ?M) d)\<rparr> else c"
  let ?d = "if modifier_nonempty ?M then table_update (Modifier ?M) d else d"
  have sv: "server_apply idParse equals c m = Inr ?c"
    using assms Some
    by (simp add: server_apply_def run_calls_def
          changed_result_server [where table = "docs c" and d = d and flds = flds])
  have cl: "client_apply isClient idParse equals c m = Inr ?c"
    using assms Some
    by (simp add: client_apply_def run_calls_def
          changed_result_client [where table = "docs c" and d = d and flds = flds])
  have 1: "docs ?c ?i = Some ?d"
    using assms by simp
  have 2: "map_of ?d ''_id'' = map_of d ''_id''"
    by (simp add: table_update_id del: table_update.simps)
  have 3: "\<forall>k. \<not> has_key (own_fields (msg_fields m)) k \<longrightarrow> map_of ?d k = map_of d k"
    using Some by (simp add: changed_frame own_fields_def del: table_update.simps)
  have 4: "\<forall>j. j \<noteq> ?i \<longrightarrow> docs ?c j = docs c j"
    by simp
  have a: "\<exists>c' d'. server_apply idParse equals c m = Inr c'
          \<and> docs c' (idParse (msg_id m)) = Some d'
          \<and> map_of d' ''_id'' = map_of d ''_id''
          \<and> (\<forall>k. \<not> has_key (own_fields (msg_fields m)) k \<longrightarrow> map_of d' k = map_of d k)
          \<and> (\<forall>j. j \<noteq> idParse (msg_id m) \<longrightarrow> docs c' j = docs c j)"
    using sv 1 2 3 4 by blast
  have b: "\<exists>c' d'. client_apply isClient idParse equals c m = Inr c'
          \<and> docs c' (idParse (msg_id m)) = Some d'
          \<and> map_of d' ''_id'' = map_of d ''_id''
          \<and> (\<forall>k. \<not> has_key (own_fields (msg_fields m)) k \<longrightarrow> map_of d' k = map_of d k)
          \<and> (\<forall>j. j \<noteq> idParse (msg_id m) \<longrightarrow> docs c' j = docs c j)"
    using cl 1 2 3 4 by blast
  from a b show ?thesis by (simp add: Some)
qed

theorem changed_frame_effect_witness:
  "(\<exists>c' d'. server_apply JStr (=)
        \<lparr>docs = [JStr ''1'' \<mapsto> [(''_id'', JStr ''1''), (''a'', JNum 1), (''b'', JNum 2)],
                 JStr ''2'' \<mapsto> [(''_id'', JStr ''2'')]], paused = False\<rparr>
        \<lparr>msg_msg = ''changed'', msg_id = ''1'', msg_fields = Some [(''a'', JNum 5)],
         msg_replace = None\<rparr> = Inr c'
      \<and> docs c' (JStr ''1'') = Some d'
      \<and> map_of d' ''_id'' = Some (JStr ''1'')
      \<and> map_of d' ''b'' = Some (JNum 2)
      \<and> docs c' (JStr ''2'') = Some [(''_id'', JStr ''2'')])
   \<and> (\<exists>c' d'. client_apply True JStr (=)
        \<lparr>docs = [JStr ''1'' \<mapsto> [(''_id'', JStr ''1''), (''a'', JNum 1), (''b'', JNum 2)],
                 JStr ''2'' \<mapsto> [(''_id'', JStr ''2'')]], paused = False\<rparr>
        \<lparr>msg_msg = ''changed'', msg_id = ''1'', msg_fields = Some [(''a'', JNum 5)],
         msg_replace = None\<rparr> = Inr c'
      \<and> docs c' (JStr ''1'') = Some d'
      \<and> map_of d' ''_id'' = Some (JStr ''1'')
      \<and> map_of d' ''b'' = Some (JNum 2)
      \<and> docs c' (JStr ''2'') = Some [(''_id'', JStr ''2'')])"
proof -
  let ?d = "[(''_id'', JStr ''1''), (''a'', JNum 1), (''b'', JNum 2)]"
  let ?c = "\<lparr>docs = [JStr ''1'' \<mapsto> ?d, JStr ''2'' \<mapsto> [(''_id'', JStr ''2'')]],
             paused = False\<rparr>"
  let ?m = "\<lparr>msg_msg = ''changed'', msg_id = ''1'', msg_fields = Some [(''a'', JNum 5)],
         msg_replace = None\<rparr>"
  have h1: "msg_msg ?m = ''changed''" by simp
  have h2: "docs ?c (JStr (msg_id ?m)) = Some ?d" by simp
  have h3: "msg_fields ?m \<noteq> None" by simp
  have nk: "\<not> has_key (own_fields (msg_fields ?m)) ''b''"
    by (simp add: has_key_def own_fields_def)
  have nj: "JStr ''2'' \<noteq> JStr (msg_id ?m)" by simp
  note t = changed_frame_effect [where c = ?c and m = ?m and idParse = JStr and d = ?d
      and equals = "(=)" and isClient = True, OF h1 h2, THEN conjunct2, THEN mp, OF h3]
  from t [THEN conjunct1] obtain c1 d1 where
    s: "server_apply JStr (=) ?c ?m = Inr c1" "docs c1 (JStr (msg_id ?m)) = Some d1"
       "map_of d1 ''_id'' = map_of ?d ''_id''"
       "\<forall>k. \<not> has_key (own_fields (msg_fields ?m)) k \<longrightarrow> map_of d1 k = map_of ?d k"
       "\<forall>j. j \<noteq> JStr (msg_id ?m) \<longrightarrow> docs c1 j = docs ?c j"
    by blast
  from t [THEN conjunct2] obtain c2 d2 where
    r: "client_apply True JStr (=) ?c ?m = Inr c2" "docs c2 (JStr (msg_id ?m)) = Some d2"
       "map_of d2 ''_id'' = map_of ?d ''_id''"
       "\<forall>k. \<not> has_key (own_fields (msg_fields ?m)) k \<longrightarrow> map_of d2 k = map_of ?d k"
       "\<forall>j. j \<noteq> JStr (msg_id ?m) \<longrightarrow> docs c2 j = docs ?c j"
    by blast
  from s(4) nk have sb: "map_of d1 ''b'' = map_of ?d ''b''" by blast
  from r(4) nk have rb: "map_of d2 ''b'' = map_of ?d ''b''" by blast
  from s(5) nj have sj: "docs c1 (JStr ''2'') = docs ?c (JStr ''2'')" by blast
  from r(5) nj have rj: "docs c2 (JStr ''2'') = docs ?c (JStr ''2'')" by blast
  have "\<exists>c' d'. server_apply JStr (=) ?c ?m = Inr c' \<and> docs c' (JStr ''1'') = Some d'
      \<and> map_of d' ''_id'' = Some (JStr ''1'') \<and> map_of d' ''b'' = Some (JNum 2)
      \<and> docs c' (JStr ''2'') = Some [(''_id'', JStr ''2'')]"
    using s(1,2,3) sb sj by simp
  moreover have "\<exists>c' d'. client_apply True JStr (=) ?c ?m = Inr c'
      \<and> docs c' (JStr ''1'') = Some d'
      \<and> map_of d' ''_id'' = Some (JStr ''1'') \<and> map_of d' ''b'' = Some (JNum 2)
      \<and> docs c' (JStr ''2'') = Some [(''_id'', JStr ''2'')]"
    using r(1,2,3) rb rj by simp
  ultimately show ?thesis by blast
qed

end
